theory Spec2Isabelle
  imports Complex_Main "HOL-Library.Char_ord" "HOL-Library.List_Lexorder"
begin

section \<open>The record store of \<^verbatim>\<open>server/database.ts\<close>\<close>

text \<open>
  The server keeps one in-memory SQLite database (sql.js) and talks to it through SQL
  statements. The model below keeps the tables the operations of \<^verbatim>\<open>database.ts\<close> read
  or write, each with its rows in rowid order and its AUTOINCREMENT counter. A table that
  does not exist is \<open>None\<close>: a statement that names it throws, as SQLite's
  "no such table" error does.

  Conventions of the embedding:
  \<^item> an optional or nullable column is an \<open>option\<close>; \<^verbatim>\<open>x || null\<close> is \<open>or_null\<close>;
  \<^item> \<^verbatim>\<open>datetime('now')\<close> and \<^verbatim>\<open>CURRENT_TIMESTAMP\<close> are the argument \<open>now\<close>;
  \<^item> \<^verbatim>\<open>bcrypt.hash(p, 10)\<close> is the argument \<open>hash\<close> applied to \<open>p\<close>;
  \<^item> every operation returns its result together with the database it leaves behind,
    also when it throws: statements already run are not rolled back;
  \<^item> the connection is opened with SQLite's default of not enforcing foreign keys and
    no statement of the program switches enforcement on, so the declared
    \<^verbatim>\<open>ON DELETE CASCADE\<close> clauses never fire and are not part of the model;
  \<^item> \<^verbatim>\<open>saveDatabase\<close> copies the database to disk and swallows its own errors; it
    does not change the database and is left out.
\<close>

datatype error =
    JsError string
  | NoSuchTable string
  | UniqueConstraint string
  | CheckConstraint string

record 'r table =
  rows :: "'r list"
  seq :: int

record User =
  u_id :: "int option"
  u_username :: string
  u_email :: string
  u_password :: string
  u_role :: string
  u_full_name :: string
  u_phone :: "string option"
  u_status :: "string option"
  u_created_at :: "string option"
  u_updated_at :: "string option"

record Patient =
  p_id :: "int option"
  p_user_id :: int
  p_date_of_birth :: "string option"
  p_gender :: "string option"
  p_blood_group :: "string option"
  p_address :: "string option"
  p_emergency_contact :: "string option"
  p_emergency_contact_name :: "string option"
  p_emergency_contact_relation :: "string option"
  p_allergies :: "string option"
  p_medical_conditions :: "string option"
  p_current_medications :: "string option"
  p_insurance :: "string option"
  p_insurance_policy_number :: "string option"
  p_occupation :: "string option"
  p_height :: "int option"
  p_weight :: "int option"
  p_created_at :: "string option"

record Doctor =
  d_id :: "int option"
  d_user_id :: int
  d_specialization :: "string option"
  d_license_number :: "string option"
  d_experience_years :: "int option"
  d_consultation_fee :: "real option"
  d_available_days :: "string option"
  d_available_time_start :: "string option"
  d_available_time_end :: "string option"
  d_created_at :: "string option"

record PendingRegistration =
  pr_id :: "int option"
  pr_username :: string
  pr_email :: string
  pr_password :: string
  pr_role :: string
  pr_full_name :: string
  pr_phone :: "string option"
  pr_status :: "string option"
  pr_admin_notes :: "string option"
  pr_approved_by :: "int option"
  pr_specialization :: "string option"
  pr_license_number :: "string option"
  pr_experience_years :: "int option"
  pr_consultation_fee :: "real option"
  pr_available_days :: "string option"
  pr_available_time_start :: "string option"
  pr_available_time_end :: "string option"
  pr_department :: "string option"
  pr_employee_id :: "string option"
  pr_created_at :: "string option"
  pr_updated_at :: "string option"

text \<open>
  The database. \<open>customers\<close> is the table the schema creates for patient profiles;
  \<open>patients\<close> is the table the patient operations and \<^verbatim>\<open>deleteUser\<close> name. Both hold
  rows of the \<^verbatim>\<open>Patient\<close> shape.
\<close>

record db =
  users :: "User table option"
  customers :: "Patient table option"
  patients :: "Patient table option"
  doctors :: "Doctor table option"
  pending_registrations :: "PendingRegistration table option"

definition empty_table :: "'r table" where
  "empty_table = \<lparr>rows = [], seq = 0\<rparr>"

text \<open>\<^verbatim>\<open>new SQL.Database()\<close>: no table at all.\<close>

definition new_database :: db where
  "new_database = \<lparr>users = None, customers = None, patients = None, doctors = None,
     pending_registrations = None\<rparr>"

text \<open>\<^verbatim>\<open>CREATE TABLE IF NOT EXISTS\<close>: an existing table is kept as it is.\<close>

definition create_if_not_exists :: "'r table option \<Rightarrow> 'r table option" where
  "create_if_not_exists t = (case t of None \<Rightarrow> Some empty_table | Some x \<Rightarrow> Some x)"

text \<open>
  \<^verbatim>\<open>createTables\<close> creates users, customers, doctors, appointments, ambulance_requests,
  pending_registrations, feedback_complaints and complaint_feedback. No statement of it
  names a table \<^verbatim>\<open>patients\<close>.
\<close>

definition createTables :: "db \<Rightarrow> db" where
  "createTables d =
     d\<lparr>users := create_if_not_exists (users d),
       customers := create_if_not_exists (customers d),
       doctors := create_if_not_exists (doctors d),
       pending_registrations := create_if_not_exists (pending_registrations d)\<rparr>"

definition createPendingRegistrationsTable :: "db \<Rightarrow> db" where
  "createPendingRegistrationsTable d =
     d\<lparr>pending_registrations := create_if_not_exists (pending_registrations d)\<rparr>"

text \<open>
  \<^verbatim>\<open>INTEGER PRIMARY KEY AUTOINCREMENT\<close>: the new rowid is one more than the largest rowid
  the table holds or has ever held (the sequence counter). SQLite keeps rowids in 64 bits
  and refuses the insert (\<^verbatim>\<open>SQLITE_FULL\<close>) once the table has held the rowid 2^63 - 1.
  The model does not bound rowids and leaves that refusal out: what it says of an insert
  is what SQLite does on a table that has stayed below that rowid, the condition
  \<open>rowid_available\<close> below, which a statement that an insert goes through takes as a
  hypothesis.
\<close>

definition next_rowid :: "int option list \<Rightarrow> int \<Rightarrow> int" where
  "next_rowid ids s = max s (fold (\<lambda>i m. case i of None \<Rightarrow> m | Some k \<Rightarrow> max k m) ids 0) + 1"

definition rowid_available :: "int option list \<Rightarrow> int \<Rightarrow> bool" where
  "rowid_available ids s = (next_rowid ids s \<le> 9223372036854775807)"

text \<open>\<^verbatim>\<open>x || null\<close> on a string and on a number: the empty string and 0 become NULL.\<close>

definition or_null :: "string option \<Rightarrow> string option" where
  "or_null x = (case x of None \<Rightarrow> None | Some s \<Rightarrow> if s = [] then None else Some s)"

definition or_null_num :: "('a::zero) option \<Rightarrow> 'a option" where
  "or_null_num x = (case x of None \<Rightarrow> None | Some n \<Rightarrow> if n = 0 then None else Some n)"

text \<open>\<^verbatim>\<open>try { ... return true } catch (error) { return false }\<close>\<close>

definition catch_false :: "(error + bool) \<times> db \<Rightarrow> bool \<times> db" where
  "catch_false r = (case r of (Inl e, d) \<Rightarrow> (False, d) | (Inr b, d) \<Rightarrow> (b, d))"

subsection \<open>User management\<close>

text \<open>
  \<^verbatim>\<open>UPDATE users SET status = ?, updated_at = datetime('now') WHERE id = ? AND role != 'admin'\<close>
\<close>

definition update_user_status :: "string \<Rightarrow> string \<Rightarrow> int \<Rightarrow> db \<Rightarrow> error + db" where
  "update_user_status st now userId d =
     (case users d of
        None \<Rightarrow> Inl (NoSuchTable ''users'')
      | Some ut \<Rightarrow>
          Inr (d\<lparr>users := Some (ut\<lparr>rows :=
            map (\<lambda>u. if u_id u = Some userId \<and> u_role u \<noteq> ''admin''
                      then u\<lparr>u_status := Some st, u_updated_at := Some now\<rparr> else u)
              (rows ut)\<rparr>)\<rparr>))"

definition suspendUser :: "db \<Rightarrow> string \<Rightarrow> int \<Rightarrow> bool \<times> db" where
  "suspendUser d now userId =
     catch_false
       (case update_user_status ''suspended'' now userId d of
          Inl e \<Rightarrow> (Inl e, d)
        | Inr d1 \<Rightarrow> (Inr True, d1))"

definition reactivateUser :: "db \<Rightarrow> string \<Rightarrow> int \<Rightarrow> bool \<times> db" where
  "reactivateUser d now userId =
     catch_false
       (case update_user_status ''active'' now userId d of
          Inl e \<Rightarrow> (Inl e, d)
        | Inr d1 \<Rightarrow> (Inr True, d1))"

text \<open>\<^verbatim>\<open>SELECT role FROM users WHERE id = ?\<close>, first row.\<close>

definition select_role :: "int \<Rightarrow> db \<Rightarrow> error + string option" where
  "select_role userId d =
     (case users d of
        None \<Rightarrow> Inl (NoSuchTable ''users'')
      | Some ut \<Rightarrow> Inr (map_option u_role (find (\<lambda>u. u_id u = Some userId) (rows ut))))"

text \<open>\<^verbatim>\<open>DELETE FROM patients WHERE user_id = ?\<close>\<close>

definition delete_patients_of :: "int \<Rightarrow> db \<Rightarrow> error + db" where
  "delete_patients_of userId d =
     (case patients d of
        None \<Rightarrow> Inl (NoSuchTable ''patients'')
      | Some pt \<Rightarrow>
          Inr (d\<lparr>patients := Some (pt\<lparr>rows := filter (\<lambda>p. p_user_id p \<noteq> userId) (rows pt)\<rparr>)\<rparr>))"

text \<open>\<^verbatim>\<open>DELETE FROM doctors WHERE user_id = ?\<close>\<close>

definition delete_doctors_of :: "int \<Rightarrow> db \<Rightarrow> error + db" where
  "delete_doctors_of userId d =
     (case doctors d of
        None \<Rightarrow> Inl (NoSuchTable ''doctors'')
      | Some dt \<Rightarrow>
          Inr (d\<lparr>doctors := Some (dt\<lparr>rows := filter (\<lambda>x. d_user_id x \<noteq> userId) (rows dt)\<rparr>)\<rparr>))"

text \<open>\<^verbatim>\<open>DELETE FROM users WHERE id = ? AND role != 'admin'\<close>\<close>

definition delete_user_row :: "int \<Rightarrow> db \<Rightarrow> error + db" where
  "delete_user_row userId d =
     (case users d of
        None \<Rightarrow> Inl (NoSuchTable ''users'')
      | Some ut \<Rightarrow>
          Inr (d\<lparr>users := Some (ut\<lparr>rows :=
            filter (\<lambda>u. \<not> (u_id u = Some userId \<and> u_role u \<noteq> ''admin'')) (rows ut)\<rparr>)\<rparr>))"

text \<open>
  \<^verbatim>\<open>deleteUser\<close>: the admin check throws inside the \<^verbatim>\<open>try\<close>, and so does every
  failing statement; the \<^verbatim>\<open>catch\<close> returns false and keeps what earlier statements did.
\<close>

definition deleteUser_body :: "db \<Rightarrow> int \<Rightarrow> (error + bool) \<times> db" where
  "deleteUser_body d userId =
     (case select_role userId d of
        Inl e \<Rightarrow> (Inl e, d)
      | Inr r \<Rightarrow>
          if r = Some ''admin'' then (Inl (JsError ''Cannot delete admin user''), d)
          else
            (case delete_patients_of userId d of
               Inl e \<Rightarrow> (Inl e, d)
             | Inr d1 \<Rightarrow>
                 (case delete_doctors_of userId d1 of
                    Inl e \<Rightarrow> (Inl e, d1)
                  | Inr d2 \<Rightarrow>
                      (case delete_user_row userId d2 of
                         Inl e \<Rightarrow> (Inl e, d2)
                       | Inr d3 \<Rightarrow> (Inr True, d3)))))"

definition deleteUser :: "db \<Rightarrow> int \<Rightarrow> bool \<times> db" where
  "deleteUser d userId = catch_false (deleteUser_body d userId)"

subsection \<open>Users\<close>

text \<open>
  \<^verbatim>\<open>INSERT INTO users (username, email, password, role, full_name, phone, created_at)\<close>.
  The table declares \<^verbatim>\<open>CHECK(role IN ('admin', 'doctor', 'customer', 'staff'))\<close> and
  \<^verbatim>\<open>UNIQUE\<close> on username and on email; status defaults to 'active' and updated_at to the
  current time. The error names the table only, not which of the two unique columns
  clashed. The result is the new row's id, as \<^verbatim>\<open>last_insert_rowid()\<close> reads it next.
\<close>

definition insert_user ::
   "string \<Rightarrow> string \<Rightarrow> string \<Rightarrow> string \<Rightarrow> string \<Rightarrow> string option \<Rightarrow> string \<Rightarrow> db
      \<Rightarrow> error + (int \<times> db)" where
  "insert_user username email password role full_name phone now d =
     (case users d of
        None \<Rightarrow> Inl (NoSuchTable ''users'')
      | Some ut \<Rightarrow>
          if role \<notin> set [''admin'', ''doctor'', ''customer'', ''staff'']
          then Inl (CheckConstraint ''users'')
          else if username \<in> set (map u_username (rows ut))
                  \<or> email \<in> set (map u_email (rows ut))
          then Inl (UniqueConstraint ''users'')
          else
            let i = next_rowid (map u_id (rows ut)) (seq ut) in
            Inr (i, d\<lparr>users := Some \<lparr>rows = rows ut @
              [\<lparr>u_id = Some i, u_username = username, u_email = email,
                u_password = password, u_role = role, u_full_name = full_name,
                u_phone = phone, u_status = Some ''active'', u_created_at = Some now,
                u_updated_at = Some now\<rparr>], seq = i\<rparr>\<rparr>))"

definition createUser :: "(string \<Rightarrow> string) \<Rightarrow> db \<Rightarrow> string \<Rightarrow> User \<Rightarrow> (error + int) \<times> db" where
  "createUser hash d now user =
     (let hashedPassword = hash (u_password user) in
      case insert_user (u_username user) (u_email user) hashedPassword (u_role user)
             (u_full_name user) (or_null (u_phone user)) now d of
        Inl e \<Rightarrow> (Inl e, d)
      | Inr (userId, d1) \<Rightarrow> (Inr userId, d1))"

text \<open>
  \<^verbatim>\<open>getUserByEmail\<close>: the first row of \<^verbatim>\<open>SELECT * FROM users WHERE email = ?\<close>, and
  \<^verbatim>\<open>undefined\<close> when there is none or the query throws.
\<close>

definition getUserByEmail :: "db \<Rightarrow> string \<Rightarrow> User option" where
  "getUserByEmail d email =
     (case users d of
        None \<Rightarrow> None
      | Some ut \<Rightarrow> find (\<lambda>u. u_email u = email) (rows ut))"

definition updateUserPassword ::
   "(string \<Rightarrow> string) \<Rightarrow> db \<Rightarrow> string \<Rightarrow> string \<Rightarrow> string \<Rightarrow> bool \<times> db" where
  "updateUserPassword hash d now email newPassword =
     catch_false
       (let hashedPassword = hash newPassword in
        case users d of
          None \<Rightarrow> (Inl (NoSuchTable ''users''), d)
        | Some ut \<Rightarrow>
            (Inr True, d\<lparr>users := Some (ut\<lparr>rows :=
               map (\<lambda>u. if u_email u = email
                         then u\<lparr>u_password := hashedPassword, u_updated_at := Some now\<rparr> else u)
                 (rows ut)\<rparr>)\<rparr>))"

subsection \<open>Patients and doctors\<close>

text \<open>
  \<^verbatim>\<open>createPatient\<close> prepares \<^verbatim>\<open>INSERT INTO patients (...)\<close>; preparing the statement
  throws when the table does not exist, and the \<^verbatim>\<open>catch\<close> rethrows. Where a table of
  that name exists (a database file from elsewhere), the row is appended; the program
  declares no constraint for it.
\<close>

definition createPatient :: "db \<Rightarrow> string \<Rightarrow> Patient \<Rightarrow> (error + int) \<times> db" where
  "createPatient d now patient =
     (case patients d of
        None \<Rightarrow> (Inl (NoSuchTable ''patients''), d)
      | Some pt \<Rightarrow>
          let i = next_rowid (map p_id (rows pt)) (seq pt) in
          (Inr i, d\<lparr>patients := Some \<lparr>rows = rows pt @
            [\<lparr>p_id = Some i, p_user_id = p_user_id patient,
              p_date_of_birth = or_null (p_date_of_birth patient),
              p_gender = or_null (p_gender patient),
              p_blood_group = or_null (p_blood_group patient),
              p_address = or_null (p_address patient),
              p_emergency_contact = or_null (p_emergency_contact patient),
              p_emergency_contact_name = or_null (p_emergency_contact_name patient),
              p_emergency_contact_relation = or_null (p_emergency_contact_relation patient),
              p_allergies = or_null (p_allergies patient),
              p_medical_conditions = or_null (p_medical_conditions patient),
              p_current_medications = or_null (p_current_medications patient),
              p_insurance = or_null (p_insurance patient),
              p_insurance_policy_number = or_null (p_insurance_policy_number patient),
              p_occupation = or_null (p_occupation patient),
              p_height = or_null_num (p_height patient),
              p_weight = or_null_num (p_weight patient),
              p_created_at = Some now\<rparr>], seq = i\<rparr>\<rparr>))"

text \<open>
  \<^verbatim>\<open>createDoctor\<close>: \<^verbatim>\<open>INSERT INTO doctors (...)\<close>. The table declares
  \<^verbatim>\<open>license_number TEXT UNIQUE\<close>; NULL never clashes.
\<close>

definition createDoctor :: "db \<Rightarrow> string \<Rightarrow> Doctor \<Rightarrow> (error + int) \<times> db" where
  "createDoctor d now doctor =
     (case doctors d of
        None \<Rightarrow> (Inl (NoSuchTable ''doctors''), d)
      | Some dt \<Rightarrow>
          let license = or_null (d_license_number doctor) in
          if license \<noteq> None \<and> license \<in> set (map d_license_number (rows dt))
          then (Inl (UniqueConstraint ''doctors''), d)
          else
            let i = next_rowid (map d_id (rows dt)) (seq dt) in
            (Inr i, d\<lparr>doctors := Some \<lparr>rows = rows dt @
              [\<lparr>d_id = Some i, d_user_id = d_user_id doctor,
                d_specialization = or_null (d_specialization doctor),
                d_license_number = license,
                d_experience_years = or_null_num (d_experience_years doctor),
                d_consultation_fee = or_null_num (d_consultation_fee doctor),
                d_available_days = or_null (d_available_days doctor),
                d_available_time_start = or_null (d_available_time_start doctor),
                d_available_time_end = or_null (d_available_time_end doctor),
                d_created_at = Some now\<rparr>], seq = i\<rparr>\<rparr>))"

text \<open>
  \<^verbatim>\<open>getAllPatients\<close>: \<^verbatim>\<open>users u JOIN patients p ON u.id = p.user_id ORDER BY u.full_name\<close>.
  Each result is the pair of rows the selected columns are read from. A query that
  throws is caught and gives the empty list.
\<close>

definition getAllPatients :: "db \<Rightarrow> (User \<times> Patient) list" where
  "getAllPatients d =
     (case users d of
        None \<Rightarrow> []
      | Some ut \<Rightarrow>
          (case patients d of
             None \<Rightarrow> []
           | Some pt \<Rightarrow>
               sort_key (\<lambda>r. u_full_name (fst r))
                 (concat (map (\<lambda>u. map (Pair u)
                    (filter (\<lambda>p. Some (p_user_id p) = u_id u) (rows pt))) (rows ut)))))"

text \<open>
  \<^verbatim>\<open>handleGetPatients\<close> of \<^verbatim>\<open>routes/data.ts\<close>: 403 unless the caller is a doctor or an
  admin, else the patients with their count.
\<close>

datatype response = Status403 | PatientsJson "(User \<times> Patient) list" nat

definition handleGetPatients :: "db \<Rightarrow> string \<Rightarrow> response" where
  "handleGetPatients d role =
     (if role \<noteq> ''doctor'' \<and> role \<noteq> ''admin'' then Status403
      else let ps = getAllPatients d in PatientsJson ps (length ps))"

subsection \<open>The registration workflow\<close>

text \<open>
  \<^verbatim>\<open>createPendingRegistration\<close>: hashes the password, then
  \<^verbatim>\<open>INSERT INTO pending_registrations (...)\<close>. The table declares \<^verbatim>\<open>email TEXT UNIQUE\<close>;
  status defaults to 'pending', created_at and updated_at to the current time. No
  statement of the function reads the users table.
\<close>

definition createPendingRegistration ::
   "(string \<Rightarrow> string) \<Rightarrow> db \<Rightarrow> string \<Rightarrow> PendingRegistration \<Rightarrow> (error + int) \<times> db" where
  "createPendingRegistration hash d now registration =
     (let hashedPassword = hash (pr_password registration) in
      case pending_registrations d of
        None \<Rightarrow> (Inl (NoSuchTable ''pending_registrations''), d)
      | Some prt \<Rightarrow>
          if pr_email registration \<in> set (map pr_email (rows prt))
          then (Inl (UniqueConstraint ''pending_registrations''), d)
          else
            let pendingId = next_rowid (map pr_id (rows prt)) (seq prt) in
            (Inr pendingId, d\<lparr>pending_registrations := Some \<lparr>rows = rows prt @
              [\<lparr>pr_id = Some pendingId,
                pr_username = pr_username registration,
                pr_email = pr_email registration,
                pr_password = hashedPassword,
                pr_role = pr_role registration,
                pr_full_name = pr_full_name registration,
                pr_phone = or_null (pr_phone registration),
                pr_status = Some ''pending'',
                pr_admin_notes = None,
                pr_approved_by = None,
                pr_specialization = or_null (pr_specialization registration),
                pr_license_number = or_null (pr_license_number registration),
                pr_experience_years = or_null_num (pr_experience_years registration),
                pr_consultation_fee = or_null_num (pr_consultation_fee registration),
                pr_available_days = or_null (pr_available_days registration),
                pr_available_time_start = or_null (pr_available_time_start registration),
                pr_available_time_end = or_null (pr_available_time_end registration),
                pr_department = or_null (pr_department registration),
                pr_employee_id = or_null (pr_employee_id registration),
                pr_created_at = Some now,
                pr_updated_at = Some now\<rparr>], seq = pendingId\<rparr>\<rparr>))"

definition getPendingRegistrationByEmail :: "db \<Rightarrow> string \<Rightarrow> PendingRegistration option" where
  "getPendingRegistrationByEmail d email =
     (case pending_registrations d of
        None \<Rightarrow> None
      | Some prt \<Rightarrow> find (\<lambda>r. pr_email r = email) (rows prt))"

text \<open>\<^verbatim>\<open>SELECT * FROM pending_registrations WHERE id = ?\<close>, first row.\<close>

definition select_pending :: "int \<Rightarrow> db \<Rightarrow> error + PendingRegistration option" where
  "select_pending pendingId d =
     (case pending_registrations d of
        None \<Rightarrow> Inl (NoSuchTable ''pending_registrations'')
      | Some prt \<Rightarrow> Inr (find (\<lambda>r. pr_id r = Some pendingId) (rows prt)))"

text \<open>
  \<^verbatim>\<open>UPDATE pending_registrations SET status = ?, approved_by = ?, admin_notes = ?,
  updated_at = datetime('now') WHERE id = ?\<close>
\<close>

definition update_pending_status ::
   "string \<Rightarrow> int \<Rightarrow> string option \<Rightarrow> string \<Rightarrow> int \<Rightarrow> db \<Rightarrow> error + db" where
  "update_pending_status st adminUserId adminNotes now pendingId d =
     (case pending_registrations d of
        None \<Rightarrow> Inl (NoSuchTable ''pending_registrations'')
      | Some prt \<Rightarrow>
          Inr (d\<lparr>pending_registrations := Some (prt\<lparr>rows :=
            map (\<lambda>r. if pr_id r = Some pendingId
                      then r\<lparr>pr_status := Some st, pr_approved_by := Some adminUserId,
                             pr_admin_notes := adminNotes, pr_updated_at := Some now\<rparr>
                      else r)
              (rows prt)\<rparr>)\<rparr>))"

text \<open>
  \<^verbatim>\<open>approvePendingRegistration\<close>: reads the staged row, inserts the user with the stored
  password, creates the doctor profile when the staged role is doctor, then marks the
  row approved. The function never reads the row's status. Every error is rethrown.
\<close>

definition approvePendingRegistration ::
   "db \<Rightarrow> string \<Rightarrow> int \<Rightarrow> int \<Rightarrow> string option \<Rightarrow> (error + bool) \<times> db" where
  "approvePendingRegistration d now pendingId adminUserId adminNotes =
     (case select_pending pendingId d of
        Inl e \<Rightarrow> (Inl e, d)
      | Inr None \<Rightarrow> (Inl (JsError ''Pending registration not found''), d)
      | Inr (Some registration) \<Rightarrow>
          (case insert_user (pr_username registration) (pr_email registration)
                  (pr_password registration) (pr_role registration)
                  (pr_full_name registration) (or_null (pr_phone registration)) now d of
             Inl e \<Rightarrow> (Inl e, d)
           | Inr (userId, d1) \<Rightarrow>
               (case (if pr_role registration = ''doctor''
                      then createDoctor d1 now
                             \<lparr>d_id = None, d_user_id = userId,
                              d_specialization = pr_specialization registration,
                              d_license_number = pr_license_number registration,
                              d_experience_years = pr_experience_years registration,
                              d_consultation_fee = pr_consultation_fee registration,
                              d_available_days = pr_available_days registration,
                              d_available_time_start = pr_available_time_start registration,
                              d_available_time_end = pr_available_time_end registration,
                              d_created_at = None\<rparr>
                      else (Inr userId, d1)) of
                  (Inl e, d2) \<Rightarrow> (Inl e, d2)
                | (Inr i, d2) \<Rightarrow>
                    (case update_pending_status ''approved'' adminUserId (or_null adminNotes)
                            now pendingId d2 of
                       Inl e \<Rightarrow> (Inl e, d2)
                     | Inr d3 \<Rightarrow> (Inr True, d3)))))"

text \<open>
  \<^verbatim>\<open>rejectPendingRegistration\<close>: the one UPDATE, with the notes bound as they come; an
  error is caught and gives false.
\<close>

definition rejectPendingRegistration :: "db \<Rightarrow> string \<Rightarrow> int \<Rightarrow> int \<Rightarrow> string \<Rightarrow> bool \<times> db" where
  "rejectPendingRegistration d now pendingId adminUserId adminNotes =
     catch_false
       (case update_pending_status ''rejected'' adminUserId (Some adminNotes) now pendingId d of
          Inl e \<Rightarrow> (Inl e, d)
        | Inr d1 \<Rightarrow> (Inr True, d1))"

subsection \<open>Histories of the store\<close>

text \<open>
  The mutating operations \<^verbatim>\<open>database.ts\<close> exports, as commands; a call carries the hash
  function and the clock of that call. \<open>run\<close> executes a list of calls in order, whatever
  each returns.
\<close>

datatype command =
    CreateTables
  | CreatePendingRegistrationsTable
  | CreateUser User
  | UpdateUserPassword string string
  | CreatePatient Patient
  | CreateDoctor Doctor
  | CreatePendingRegistration PendingRegistration
  | ApprovePendingRegistration int int "string option"
  | RejectPendingRegistration int int string
  | SuspendUser int
  | ReactivateUser int
  | DeleteUser int

fun exec :: "db \<Rightarrow> (string \<Rightarrow> string) \<times> string \<times> command \<Rightarrow> db" where
  "exec d (hash, now, CreateTables) = createTables d"
| "exec d (hash, now, CreatePendingRegistrationsTable) = createPendingRegistrationsTable d"
| "exec d (hash, now, CreateUser user) = snd (createUser hash d now user)"
| "exec d (hash, now, UpdateUserPassword email newPassword) =
     snd (updateUserPassword hash d now email newPassword)"
| "exec d (hash, now, CreatePatient patient) = snd (createPatient d now patient)"
| "exec d (hash, now, CreateDoctor doctor) = snd (createDoctor d now doctor)"
| "exec d (hash, now, CreatePendingRegistration registration) =
     snd (createPendingRegistration hash d now registration)"
| "exec d (hash, now, ApprovePendingRegistration pendingId adminUserId adminNotes) =
     snd (approvePendingRegistration d now pendingId adminUserId adminNotes)"
| "exec d (hash, now, RejectPendingRegistration pendingId adminUserId adminNotes) =
     snd (rejectPendingRegistration d now pendingId adminUserId adminNotes)"
| "exec d (hash, now, SuspendUser userId) = snd (suspendUser d now userId)"
| "exec d (hash, now, ReactivateUser userId) = snd (reactivateUser d now userId)"
| "exec d (hash, now, DeleteUser userId) = snd (deleteUser d userId)"

primrec run :: "db \<Rightarrow> ((string \<Rightarrow> string) \<times> string \<times> command) list \<Rightarrow> db" where
  "run d [] = d"
| "run d (c # cs) = run (exec d c) cs"

text \<open>
  \<^verbatim>\<open>initDatabase\<close>: the database file when there is one, else a new database; then
  \<^verbatim>\<open>createTables\<close>, and \<^verbatim>\<open>createPendingRegistrationsTable\<close> should that table still be
  missing. The two column migrations add columns the rows of the model always have.
\<close>

definition initDatabase :: "db option \<Rightarrow> db" where
  "initDatabase file =
     (let d = createTables (case file of None \<Rightarrow> new_database | Some data \<Rightarrow> data) in
      if pending_registrations d = None then createPendingRegistrationsTable d else d)"

section \<open>The patient directory filter of the client page\<close>

text \<open>
  The page filters an in-memory list with one callback. The callback reads the clock
  (\<^verbatim>\<open>new Date()\<close>), parses date strings (\<^verbatim>\<open>new Date(s)\<close>) and calls the string methods
  \<^verbatim>\<open>toLowerCase\<close>, \<^verbatim>\<open>trim\<close> and \<^verbatim>\<open>includes\<close>. A \<^verbatim>\<open>Date\<close> is modelled by what the code
  reads from it: its time value in milliseconds and its calendar fields in local time
  (\<^verbatim>\<open>getMonth\<close> counts from 0). Parsing and the two locale-dependent string methods are
  parameters of the model (\<open>js\<close>); an unparsable string gives an invalid date
  (\<open>None\<close>), whose fields are all NaN. Time values are whole milliseconds far below
  2^53, so the quotient the code rounds up is computed exactly.

  The component computes the filtered list in its body, at every render:
  \<^verbatim>\<open>const filteredPatients = patients.filter(patient => { ... })\<close>. Two names of that
  statement are not bound when it runs, and the model follows the code there:
  \<^item> \<^verbatim>\<open>patients\<close> is declared nowhere in the file (the state is \<^verbatim>\<open>customers\<close>), so the
    name is looked up on the global object, and reading it throws a ReferenceError when
    the global object has no such property;
  \<^item> \<^verbatim>\<open>calculateAge\<close> is a \<^verbatim>\<open>const\<close> declared further down in the same body, so
    while the filter runs the name is not yet initialised and a call of it from the
    callback throws a ReferenceError.
  The functions \<^verbatim>\<open>calculateAge\<close> itself, the two \<^verbatim>\<open>switch\<close> statements and the day count
  are modelled as the functions of their inputs that the source text defines.
\<close>

record Date =
  getTime :: int
  getFullYear :: int
  getMonth :: int
  getDate :: int

record js =
  toLowerCase :: "string \<Rightarrow> string"
  trim :: "string \<Rightarrow> string"
  newDate :: "string \<Rightarrow> Date option"

record Customer =
  c_user_id :: int
  c_full_name :: string
  c_email :: string
  c_phone :: "string option"
  c_date_of_birth :: "string option"
  c_gender :: "string option"
  c_blood_group :: "string option"
  c_address :: "string option"
  c_medical_conditions :: "string option"
  c_created_at :: string

record FilterState =
  gender :: string
  bloodGroup :: string
  ageRange :: string
  hasConditions :: string
  registrationPeriod :: string

text \<open>A JavaScript value as \<^verbatim>\<open>calculateAge\<close> returns it: a string, a number or NaN.\<close>

datatype js_value = Str string | Num int | NaN

text \<open>An exception thrown while the component renders, with the name it could not read.\<close>

datatype js_exception = ReferenceError string

text \<open>
  \<^verbatim>\<open>v > n\<close> and \<^verbatim>\<open>v < n\<close> against a number: false for NaN, and for the one string
  the code can produce ('N/A', which converts to NaN).
\<close>

fun js_gt :: "js_value \<Rightarrow> int \<Rightarrow> bool" where
  "js_gt (Num a) n = (a > n)"
| "js_gt NaN n = False"
| "js_gt (Str s) n = False"

fun js_lt :: "js_value \<Rightarrow> int \<Rightarrow> bool" where
  "js_lt (Num a) n = (a < n)"
| "js_lt NaN n = False"
| "js_lt (Str s) n = False"

text \<open>Truthiness of an optional string: undefined, null and the empty string are falsy.\<close>

definition truthy :: "string option \<Rightarrow> bool" where
  "truthy x = (case x of None \<Rightarrow> False | Some s \<Rightarrow> s \<noteq> [])"

text \<open>\<^verbatim>\<open>s.includes(t)\<close>: \<open>t\<close> occurs in \<open>s\<close> as a contiguous run.\<close>

fun includes_str :: "string \<Rightarrow> string \<Rightarrow> bool" where
  "includes_str [] t = (t = [])"
| "includes_str (c # s) t = (take (length t) (c # s) = t \<or> includes_str s t)"

text \<open>
  \<^verbatim>\<open>calculateAge\<close>, the function as declared: what a call returns once the declaration
  has run (the markup of the list calls it for each row).
\<close>

definition calculateAge :: "js \<Rightarrow> Date \<Rightarrow> string option \<Rightarrow> js_value" where
  "calculateAge env today dateOfBirth =
     (case dateOfBirth of
        None \<Rightarrow> Str ''N/A''
      | Some s \<Rightarrow>
          if s = [] then Str ''N/A''
          else
            (case newDate env s of
               None \<Rightarrow> NaN
             | Some birth \<Rightarrow>
                 let age = getFullYear today - getFullYear birth;
                     monthDiff = getMonth today - getMonth birth
                 in if monthDiff < 0 \<or> (monthDiff = 0 \<and> getDate today < getDate birth)
                    then Num (age - 1) else Num age))"

text \<open>
  The age the filter uses, as the callback evaluates it during render:
  \<^verbatim>\<open>patient.date_of_birth ? calculateAge(patient.date_of_birth) : 0\<close>.
  With a date of birth the expression reads \<^verbatim>\<open>calculateAge\<close> before its declaration has
  run and throws; without one it is 0 and nothing is called.
\<close>

definition filter_age :: "Customer \<Rightarrow> js_exception + js_value" where
  "filter_age patient =
     (if truthy (c_date_of_birth patient)
      then Inl (ReferenceError ''calculateAge'') else Inr (Num 0))"

text \<open>
  The \<^verbatim>\<open>switch\<close> on \<^verbatim>\<open>filters.ageRange\<close>: false where the callback returns false, true
  where it goes on (also for a value no case names).
\<close>

definition ageRange_ok :: "string \<Rightarrow> js_value \<Rightarrow> bool" where
  "ageRange_ok r age =
     (if r = ''0-18'' then \<not> js_gt age 18
      else if r = ''19-30'' then \<not> (js_lt age 19 \<or> js_gt age 30)
      else if r = ''31-50'' then \<not> (js_lt age 31 \<or> js_gt age 50)
      else if r = ''51+'' then \<not> js_lt age 51
      else True)"

text \<open>
  \<^verbatim>\<open>Math.ceil(Math.abs(now.getTime() - registrationDate.getTime()) / (1000 * 60 * 60 * 24))\<close>;
  \<open>None\<close> is NaN, the result for a \<^verbatim>\<open>created_at\<close> that does not parse.
\<close>

definition diffDays :: "js \<Rightarrow> Date \<Rightarrow> Customer \<Rightarrow> int option" where
  "diffDays env now patient =
     (case newDate env (c_created_at patient) of
        None \<Rightarrow> None
      | Some registrationDate \<Rightarrow>
          let diffTime = \<bar>getTime now - getTime registrationDate\<bar>
          in Some \<lceil>real_of_int diffTime / (1000 * 60 * 60 * 24)\<rceil>)"

text \<open>The \<^verbatim>\<open>switch\<close> on \<^verbatim>\<open>filters.registrationPeriod\<close>; \<^verbatim>\<open>NaN > n\<close> is false.\<close>

definition registrationPeriod_ok :: "string \<Rightarrow> int option \<Rightarrow> bool" where
  "registrationPeriod_ok r days =
     (case days of
        None \<Rightarrow> True
      | Some n \<Rightarrow>
          if r = ''last-week'' then \<not> n > 7
          else if r = ''last-month'' then \<not> n > 30
          else if r = ''last-3-months'' then \<not> n > 90
          else if r = ''last-year'' then \<not> n > 365
          else True)"

text \<open>
  The callback of \<^verbatim>\<open>patients.filter\<close>, branch by branch in the order of the source: it
  returns true or false, or throws where the age branch does.
\<close>

definition patient_callback ::
   "js \<Rightarrow> Date \<Rightarrow> string \<Rightarrow> FilterState \<Rightarrow> Customer \<Rightarrow> js_exception + bool" where
  "patient_callback env now searchTerm filters patient =
     (let matchesSearch =
            includes_str (toLowerCase env (c_full_name patient)) (toLowerCase env searchTerm)
          \<or> includes_str (toLowerCase env (c_email patient)) (toLowerCase env searchTerm)
          \<or> (case c_phone patient of
                None \<Rightarrow> False
              | Some phone \<Rightarrow> phone \<noteq> [] \<and> includes_str phone searchTerm)
      in
      if \<not> matchesSearch then Inr False
      else if gender filters \<noteq> ''all'' \<and> c_gender patient \<noteq> Some (gender filters)
      then Inr False
      else if bloodGroup filters \<noteq> ''all'' \<and> c_blood_group patient \<noteq> Some (bloodGroup filters)
      then Inr False
      else
        (case (if ageRange filters \<noteq> ''all''
               then (case filter_age patient of
                       Inl e \<Rightarrow> Inl e
                     | Inr age \<Rightarrow> Inr (ageRange_ok (ageRange filters) age))
               else Inr True) of
           Inl e \<Rightarrow> Inl e
         | Inr in_range \<Rightarrow>
             if \<not> in_range then Inr False
             else if hasConditions filters \<noteq> ''all''
                \<and> (let has = (case c_medical_conditions patient of
                                 None \<Rightarrow> False
                               | Some m \<Rightarrow> m \<noteq> [] \<and> trim env m \<noteq> [])
                    in (hasConditions filters = ''yes'' \<and> \<not> has)
                     \<or> (hasConditions filters = ''no'' \<and> has))
             then Inr False
             else if registrationPeriod filters \<noteq> ''all''
                     \<and> \<not> registrationPeriod_ok (registrationPeriod filters)
                           (diffDays env now patient)
             then Inr False
             else Inr True))"

text \<open>The callback keeps the patient: it returns true.\<close>

definition patient_filter :: "js \<Rightarrow> Date \<Rightarrow> string \<Rightarrow> FilterState \<Rightarrow> Customer \<Rightarrow> bool" where
  "patient_filter env now searchTerm filters patient =
     (patient_callback env now searchTerm filters patient = Inr True)"

text \<open>\<^verbatim>\<open>Array.prototype.filter\<close> with a callback that may throw: the first throw ends it.\<close>

fun filter_js :: "('a \<Rightarrow> js_exception + bool) \<Rightarrow> 'a list \<Rightarrow> js_exception + 'a list" where
  "filter_js f [] = Inr []"
| "filter_js f (x # xs) =
     (case f x of
        Inl e \<Rightarrow> Inl e
      | Inr keep \<Rightarrow>
          (case filter_js f xs of
             Inl e \<Rightarrow> Inl e
           | Inr ys \<Rightarrow> Inr (if keep then x # ys else ys)))"

text \<open>
  The statement that computes \<^verbatim>\<open>filteredPatients\<close>. Its argument \<open>global_patients\<close> is
  what the global object holds under the name \<^verbatim>\<open>patients\<close>: the component binds no such
  name, and where the page has no such global (\<open>None\<close>) the statement throws before the
  filter starts.
\<close>

definition filteredPatients ::
   "js \<Rightarrow> Date \<Rightarrow> string \<Rightarrow> FilterState \<Rightarrow> Customer list option
      \<Rightarrow> js_exception + Customer list" where
  "filteredPatients env now searchTerm filters global_patients =
     (case global_patients of
        None \<Rightarrow> Inl (ReferenceError ''patients'')
      | Some ps \<Rightarrow> filter_js (patient_callback env now searchTerm filters) ps)"

section \<open>Reading a store\<close>

text \<open>The rows of each table, none when the table does not exist.\<close>

definition user_rows :: "db \<Rightarrow> User list" where
  "user_rows d = (case users d of None \<Rightarrow> [] | Some t \<Rightarrow> rows t)"

definition customer_rows :: "db \<Rightarrow> Patient list" where
  "customer_rows d = (case customers d of None \<Rightarrow> [] | Some t \<Rightarrow> rows t)"

definition doctor_rows :: "db \<Rightarrow> Doctor list" where
  "doctor_rows d = (case doctors d of None \<Rightarrow> [] | Some t \<Rightarrow> rows t)"

definition pending_rows :: "db \<Rightarrow> PendingRegistration list" where
  "pending_rows d = (case pending_registrations d of None \<Rightarrow> [] | Some t \<Rightarrow> rows t)"

definition admin_rows :: "db \<Rightarrow> User list" where
  "admin_rows d = filter (\<lambda>u. u_role u = ''admin'') (user_rows d)"

section \<open>Sample data\<close>

definition sample_user :: "int \<Rightarrow> string \<Rightarrow> string \<Rightarrow> User" where
  "sample_user i name role =
     \<lparr>u_id = Some i, u_username = name, u_email = name @ ''@clinic.test'',
      u_password = ''$2a$10$stored'', u_role = role, u_full_name = name, u_phone = None,
      u_status = Some ''active'', u_created_at = Some ''2024-01-01 09:00:00'',
      u_updated_at = Some ''2024-01-01 09:00:00''\<rparr>"

definition sample_profile :: "int \<Rightarrow> int \<Rightarrow> Patient" where
  "sample_profile i userId =
     \<lparr>p_id = Some i, p_user_id = userId, p_date_of_birth = None, p_gender = None,
      p_blood_group = None, p_address = None, p_emergency_contact = None,
      p_emergency_contact_name = None, p_emergency_contact_relation = None,
      p_allergies = None, p_medical_conditions = None, p_current_medications = None,
      p_insurance = None, p_insurance_policy_number = None, p_occupation = None,
      p_height = None, p_weight = None, p_created_at = Some ''2024-01-02 09:00:00''\<rparr>"

text \<open>
  A database file that carries a table \<^verbatim>\<open>patients\<close> beside the tables of the schema, and
  the same store as the schema alone makes it.
\<close>

definition legacy_store :: db where
  "legacy_store =
     \<lparr>users = Some \<lparr>rows = [sample_user 1 ''root'' ''admin'', sample_user 2 ''asha'' ''customer''],
                     seq = 2\<rparr>,
      customers = Some \<lparr>rows = [sample_profile 1 2], seq = 1\<rparr>,
      patients = Some empty_table,
      doctors = Some empty_table,
      pending_registrations = Some empty_table\<rparr>"

definition schema_store :: db where
  "schema_store = legacy_store\<lparr>patients := None\<rparr>"

text \<open>
  A store under review: an admin and a doctor with her profile, and four staged
  registrations, one of them already rejected and one whose license number is the
  doctor's.
\<close>

definition sample_doctor :: "int \<Rightarrow> int \<Rightarrow> string \<Rightarrow> Doctor" where
  "sample_doctor i userId license =
     \<lparr>d_id = Some i, d_user_id = userId, d_specialization = Some ''cardiology'',
      d_license_number = Some license, d_experience_years = Some 7,
      d_consultation_fee = None, d_available_days = None, d_available_time_start = None,
      d_available_time_end = None, d_created_at = Some ''2024-01-03 09:00:00''\<rparr>"

definition staged :: "int \<Rightarrow> string \<Rightarrow> string \<Rightarrow> string option \<Rightarrow> string \<Rightarrow> PendingRegistration" where
  "staged i name role license status =
     \<lparr>pr_id = Some i, pr_username = name, pr_email = name @ ''@clinic.test'',
      pr_password = ''$2a$10$staged'', pr_role = role, pr_full_name = name, pr_phone = None,
      pr_status = Some status, pr_admin_notes = None, pr_approved_by = None,
      pr_specialization = None, pr_license_number = license, pr_experience_years = None,
      pr_consultation_fee = None, pr_available_days = None, pr_available_time_start = None,
      pr_available_time_end = None, pr_department = None, pr_employee_id = None,
      pr_created_at = Some ''2024-02-01 09:00:00'', pr_updated_at = Some ''2024-02-01 09:00:00''\<rparr>"

definition review_store :: db where
  "review_store =
     \<lparr>users = Some \<lparr>rows = [sample_user 1 ''root'' ''admin'', sample_user 2 ''bose'' ''doctor''],
                     seq = 2\<rparr>,
      customers = Some empty_table,
      patients = None,
      doctors = Some \<lparr>rows = [sample_doctor 1 2 ''MD-1''], seq = 1\<rparr>,
      pending_registrations = Some \<lparr>rows =
        [staged 1 ''chen'' ''staff'' None ''pending'',
         staged 2 ''diaz'' ''staff'' None ''rejected'',
         staged 3 ''eze'' ''doctor'' (Some ''MD-1'') ''pending'',
         staged 4 ''faro'' ''doctor'' (Some ''MD-2'') ''pending''], seq = 4\<rparr>\<rparr>"

text \<open>A candidate as submitted, with the plaintext password, and a hash function.\<close>

definition candidate :: "string \<Rightarrow> string \<Rightarrow> string \<Rightarrow> PendingRegistration" where
  "candidate name email role =
     \<lparr>pr_id = None, pr_username = name, pr_email = email,
      pr_password = ''secret'', pr_role = role, pr_full_name = name, pr_phone = Some [],
      pr_status = None, pr_admin_notes = None, pr_approved_by = None,
      pr_specialization = None, pr_license_number = None, pr_experience_years = None,
      pr_consultation_fee = None, pr_available_days = None, pr_available_time_start = None,
      pr_available_time_end = None, pr_department = None, pr_employee_id = None,
      pr_created_at = None, pr_updated_at = None\<rparr>"

definition sample_hash :: "string \<Rightarrow> string" where
  "sample_hash p = ''$2a$10$'' @ p"

section \<open>What the workflow writes\<close>

text \<open>The rows \<^verbatim>\<open>approvePendingRegistration\<close> writes for a staged row.\<close>

definition user_of_registration :: "PendingRegistration \<Rightarrow> int \<Rightarrow> string \<Rightarrow> User" where
  "user_of_registration r i now =
     \<lparr>u_id = Some i, u_username = pr_username r, u_email = pr_email r,
      u_password = pr_password r, u_role = pr_role r, u_full_name = pr_full_name r,
      u_phone = or_null (pr_phone r), u_status = Some ''active'', u_created_at = Some now,
      u_updated_at = Some now\<rparr>"

definition doctor_of_registration :: "PendingRegistration \<Rightarrow> int \<Rightarrow> int \<Rightarrow> string \<Rightarrow> Doctor" where
  "doctor_of_registration r i userId now =
     \<lparr>d_id = Some i, d_user_id = userId,
      d_specialization = or_null (pr_specialization r),
      d_license_number = or_null (pr_license_number r),
      d_experience_years = or_null_num (pr_experience_years r),
      d_consultation_fee = or_null_num (pr_consultation_fee r),
      d_available_days = or_null (pr_available_days r),
      d_available_time_start = or_null (pr_available_time_start r),
      d_available_time_end = or_null (pr_available_time_end r),
      d_created_at = Some now\<rparr>"

text \<open>The decision an admin's UPDATE records on a staged row.\<close>

definition decide ::
   "string \<Rightarrow> int \<Rightarrow> string option \<Rightarrow> string \<Rightarrow> PendingRegistration \<Rightarrow> PendingRegistration" where
  "decide st adminUserId adminNotes now r =
     r\<lparr>pr_status := Some st, pr_approved_by := Some adminUserId,
       pr_admin_notes := adminNotes, pr_updated_at := Some now\<rparr>"

text \<open>The row \<^verbatim>\<open>createPendingRegistration\<close> writes for a candidate.\<close>

definition staged_row ::
   "(string \<Rightarrow> string) \<Rightarrow> PendingRegistration \<Rightarrow> int \<Rightarrow> string \<Rightarrow> PendingRegistration" where
  "staged_row hash r i now =
     \<lparr>pr_id = Some i,
      pr_username = pr_username r,
      pr_email = pr_email r,
      pr_password = hash (pr_password r),
      pr_role = pr_role r,
      pr_full_name = pr_full_name r,
      pr_phone = or_null (pr_phone r),
      pr_status = Some ''pending'',
      pr_admin_notes = None,
      pr_approved_by = None,
      pr_specialization = or_null (pr_specialization r),
      pr_license_number = or_null (pr_license_number r),
      pr_experience_years = or_null_num (pr_experience_years r),
      pr_consultation_fee = or_null_num (pr_consultation_fee r),
      pr_available_days = or_null (pr_available_days r),
      pr_available_time_start = or_null (pr_available_time_start r),
      pr_available_time_end = or_null (pr_available_time_end r),
      pr_department = or_null (pr_department r),
      pr_employee_id = or_null (pr_employee_id r),
      pr_created_at = Some now,
      pr_updated_at = Some now\<rparr>"

section \<open>Sample data for the patient directory\<close>

text \<open>
  A clock reading of 15 June 2024, 12:00, and the dates the sample strings stand for
  (time values as for a zone at UTC).
\<close>

definition sample_now :: Date where
  "sample_now = \<lparr>getTime = 1718452800000, getFullYear = 2024, getMonth = 5, getDate = 15\<rparr>"

definition sample_dates :: "(string \<times> Date) list" where
  "sample_dates =
     [(''2006-06-15'', \<lparr>getTime = 1150329600000, getFullYear = 2006, getMonth = 5, getDate = 15\<rparr>),
      (''2006-06-14'', \<lparr>getTime = 1150243200000, getFullYear = 2006, getMonth = 5, getDate = 14\<rparr>),
      (''2005-06-15'', \<lparr>getTime = 1118793600000, getFullYear = 2005, getMonth = 5, getDate = 15\<rparr>),
      (''2024-06-15 12:00:00'', \<lparr>getTime = 1718452800000, getFullYear = 2024, getMonth = 5, getDate = 15\<rparr>),
      (''2024-06-12 12:00:00'', \<lparr>getTime = 1718193600000, getFullYear = 2024, getMonth = 5, getDate = 12\<rparr>),
      (''2024-06-08 12:00:00'', \<lparr>getTime = 1717848000000, getFullYear = 2024, getMonth = 5, getDate = 8\<rparr>),
      (''2024-06-07 12:00:00'', \<lparr>getTime = 1717761600000, getFullYear = 2024, getMonth = 5, getDate = 7\<rparr>)]"

definition lower_char :: "char \<Rightarrow> char" where
  "lower_char c =
     (case map_of (zip ''ABCDEFGHIJKLMNOPQRSTUVWXYZ'' ''abcdefghijklmnopqrstuvwxyz'') c of
        None \<Rightarrow> c
      | Some l \<Rightarrow> l)"

text \<open>The string methods on ASCII text, and parsing by the table.\<close>

definition sample_js :: js where
  "sample_js =
     \<lparr>toLowerCase = map lower_char,
      trim = (\<lambda>s. rev (dropWhile (\<lambda>c. c = CHR '' '') (rev (dropWhile (\<lambda>c. c = CHR '' '') s)))),
      newDate = map_of sample_dates\<rparr>"

definition sample_customer :: "int \<Rightarrow> string \<Rightarrow> string option \<Rightarrow> string \<Rightarrow> Customer" where
  "sample_customer i name dob created =
     \<lparr>c_user_id = i, c_full_name = name, c_email = name @ ''@mail.test'', c_phone = None,
      c_date_of_birth = dob, c_gender = Some ''female'', c_blood_group = Some ''O+'',
      c_address = None, c_medical_conditions = None, c_created_at = created\<rparr>"

definition no_filters :: FilterState where
  "no_filters = \<lparr>gender = ''all'', bloodGroup = ''all'', ageRange = ''all'',
     hasConditions = ''all'', registrationPeriod = ''all''\<rparr>"

section \<open>Statements of the store, one by one\<close>

lemma fold_max_bounds:
  "(m::int) \<le> fold (\<lambda>i m. case i of None \<Rightarrow> m | Some k \<Rightarrow> max k m) ids m
   \<and> (Some k \<in> set ids \<longrightarrow> k \<le> fold (\<lambda>i m. case i of None \<Rightarrow> m | Some k \<Rightarrow> max k m) ids m)"
proof (induction ids arbitrary: m)
  case Nil
  show ?case by simp
next
  case (Cons a ids)
  show ?case
  proof (cases a)
    case None
    with Cons show ?thesis by simp
  next
    case (Some j)
    have 1: "max j m \<le> fold (\<lambda>i m. case i of None \<Rightarrow> m | Some k \<Rightarrow> max k m) ids (max j m)"
      using Cons [of "max j m"] by simp
    have 2: "Some k \<in> set ids \<longrightarrow>
        k \<le> fold (\<lambda>i m. case i of None \<Rightarrow> m | Some k \<Rightarrow> max k m) ids (max j m)"
      using Cons [of "max j m"] by simp
    from 1 2 Some show ?thesis by auto
  qed
qed

text \<open>An AUTOINCREMENT rowid is new to its table.\<close>

lemma next_rowid_fresh: "Some (next_rowid ids s) \<notin> set ids"
proof
  assume "Some (next_rowid ids s) \<in> set ids"
  then have "next_rowid ids s \<le> fold (\<lambda>i m. case i of None \<Rightarrow> m | Some k \<Rightarrow> max k m) ids 0"
    using fold_max_bounds [of 0 ids "next_rowid ids s"] by simp
  then show False by (simp add: next_rowid_def)
qed

lemma find_append_none:
  "find P xs = None \<Longrightarrow> find P (xs @ ys) = find P ys"
  by (induction xs) (auto split: if_splits)

lemma find_fresh_id:
  "Some i \<notin> set (map pr_id xs) \<Longrightarrow> find (\<lambda>r. pr_id r = Some i) xs = None"
  by (induction xs) auto

lemma find_map_decide:
  "find (\<lambda>r. pr_id r = Some i) (map (\<lambda>x. if pr_id x = Some i then decide st a n now x else x) xs)
   = map_option (decide st a n now) (find (\<lambda>r. pr_id r = Some i) xs)"
  by (induction xs) (auto simp: decide_def)

lemma map_decide_absent:
  "find (\<lambda>r. pr_id r = Some i) xs = None \<Longrightarrow>
   map (\<lambda>x. if pr_id x = Some i then decide st a n now x else x) xs = xs"
  by (induction xs) (auto split: if_splits)

lemma filter_filter_absorb:
  assumes "\<And>x. P x \<Longrightarrow> Q x"
  shows "filter P (filter Q xs) = filter P xs"
  using assms by (induction xs) auto

lemma admin_filter_status_update:
  "filter (\<lambda>u. u_role u = ''admin'')
     (map (\<lambda>u. if u_id u = Some i \<and> u_role u \<noteq> ''admin''
               then u\<lparr>u_status := Some st, u_updated_at := Some now\<rparr> else u) xs)
   = filter (\<lambda>u. u_role u = ''admin'') xs"
  by (induction xs) auto

lemma insert_user_Inr:
  assumes "insert_user un em pw ro fn ph now d = Inr (i, d1)"
  obtains ut where "users d = Some ut"
    and "ro \<in> set [''admin'', ''doctor'', ''customer'', ''staff'']"
    and "un \<notin> set (map u_username (rows ut))"
    and "em \<notin> set (map u_email (rows ut))"
    and "i = next_rowid (map u_id (rows ut)) (seq ut)"
    and "d1 = d\<lparr>users := Some \<lparr>rows = rows ut @
              [\<lparr>u_id = Some i, u_username = un, u_email = em,
                u_password = pw, u_role = ro, u_full_name = fn,
                u_phone = ph, u_status = Some ''active'', u_created_at = Some now,
                u_updated_at = Some now\<rparr>], seq = i\<rparr>\<rparr>"
  using assms unfolding insert_user_def Let_def
  by (auto split: option.splits if_splits)

lemma insert_user_Inl_unique:
  assumes "users d = Some ut"
    and "ro \<in> set [''admin'', ''doctor'', ''customer'', ''staff'']"
    and "un \<in> set (map u_username (rows ut))"
  shows "insert_user un em pw ro fn ph now d = Inl (UniqueConstraint ''users'')"
  using assms unfolding insert_user_def by simp

lemma createDoctor_cases:
  assumes "createDoctor d now x = (r, d2)"
  obtains (fail) e where "r = Inl e" and "d2 = d"
      and "e = NoSuchTable ''doctors'' \<or> e = UniqueConstraint ''doctors''"
    | (ok) dt i where "r = Inr i" and "doctors d = Some dt"
      and "i = next_rowid (map d_id (rows dt)) (seq dt)"
      and "d2 = d\<lparr>doctors := Some \<lparr>rows = rows dt @
              [\<lparr>d_id = Some i, d_user_id = d_user_id x,
                d_specialization = or_null (d_specialization x),
                d_license_number = or_null (d_license_number x),
                d_experience_years = or_null_num (d_experience_years x),
                d_consultation_fee = or_null_num (d_consultation_fee x),
                d_available_days = or_null (d_available_days x),
                d_available_time_start = or_null (d_available_time_start x),
                d_available_time_end = or_null (d_available_time_end x),
                d_created_at = Some now\<rparr>], seq = i\<rparr>\<rparr>"
  using assms unfolding createDoctor_def Let_def
  by (auto split: option.splits if_splits)

lemma update_pending_status_Inr:
  assumes "pending_registrations d = Some prt"
  shows "update_pending_status st a n now i d =
     Inr (d\<lparr>pending_registrations := Some (prt\<lparr>rows :=
        map (\<lambda>r. if pr_id r = Some i then decide st a n now r else r) (rows prt)\<rparr>)\<rparr>)"
  using assms unfolding update_pending_status_def decide_def by simp

lemma select_pending_Inr:
  assumes "select_pending i d = Inr x"
  obtains prt where "pending_registrations d = Some prt"
    and "x = find (\<lambda>r. pr_id r = Some i) (rows prt)"
  using assms unfolding select_pending_def by (auto split: option.splits)

lemma users_createDoctor: "users (snd (createDoctor d now x)) = users d"
  by (auto simp: createDoctor_def Let_def split: option.splits if_splits)

lemma users_update_pending_status:
  "update_pending_status st a n now i d = Inr d1 \<Longrightarrow> users d1 = users d"
  by (auto simp: update_pending_status_def split: option.splits)

lemma submit_Inr:
  assumes "pending_registrations d = Some prt"
    and "pr_email reg \<notin> set (map pr_email (rows prt))"
  shows "createPendingRegistration hash d now reg =
          (Inr (next_rowid (map pr_id (rows prt)) (seq prt)),
           d\<lparr>pending_registrations := Some \<lparr>rows = rows prt @
               [staged_row hash reg (next_rowid (map pr_id (rows prt)) (seq prt)) now],
               seq = next_rowid (map pr_id (rows prt)) (seq prt)\<rparr>\<rparr>)"
  using assms by (simp add: createPendingRegistration_def Let_def staged_row_def)

lemma submit_Inl:
  assumes "pending_registrations d = Some prt"
    and "pr_email reg \<in> set (map pr_email (rows prt))"
  shows "createPendingRegistration hash d now reg =
          (Inl (UniqueConstraint ''pending_registrations''), d)"
  using assms by (simp add: createPendingRegistration_def Let_def)

subsection \<open>The table \<^verbatim>\<open>patients\<close> under every operation\<close>

lemma patients_insert_user:
  "insert_user a b c r f p now d = Inr (i, d1) \<Longrightarrow> patients d1 = patients d"
  by (auto simp: insert_user_def Let_def split: option.splits if_splits)

lemma patients_createDoctor: "patients (snd (createDoctor d now x)) = patients d"
  by (auto simp: createDoctor_def Let_def split: option.splits if_splits)

lemma patients_update_pending_status:
  "update_pending_status st a n now i d = Inr d1 \<Longrightarrow> patients d1 = patients d"
  by (auto simp: update_pending_status_def split: option.splits)

lemma patients_update_user_status:
  "update_user_status st now i d = Inr d1 \<Longrightarrow> patients d1 = patients d"
  by (auto simp: update_user_status_def split: option.splits)

lemma patients_approve:
  "patients (snd (approvePendingRegistration d now i a n)) = patients d"
proof -
  have doc: "\<And>d1 x e d2. createDoctor d1 now x = (e, d2) \<Longrightarrow> patients d2 = patients d1"
    using patients_createDoctor by (metis snd_conv)
  show ?thesis
    unfolding approvePendingRegistration_def
    by (auto split: sum.splits option.splits prod.splits if_splits
        dest!: patients_insert_user patients_update_pending_status doc)
qed

lemma patients_exec: "patients d = None \<Longrightarrow> patients (exec d c) = None"
proof -
  assume n: "patients d = None"
  obtain hash now cmd where c: "c = (hash, now, cmd)" by (cases c) auto
  show ?thesis
  proof (cases cmd)
    case (ApprovePendingRegistration i a n0)
    then show ?thesis using n c by (simp add: patients_approve)
  next
    case (CreateDoctor x)
    then show ?thesis using n c by (simp add: patients_createDoctor)
  qed (use n c in \<open>auto simp: createTables_def createPendingRegistrationsTable_def
        createUser_def updateUserPassword_def createPatient_def createPendingRegistration_def
        rejectPendingRegistration_def suspendUser_def reactivateUser_def deleteUser_def
        deleteUser_body_def delete_patients_of_def select_role_def catch_false_def Let_def
        split: sum.splits option.splits prod.splits if_splits
        dest!: patients_insert_user patients_update_pending_status patients_update_user_status\<close>)
qed

lemma patients_run: "patients d = None \<Longrightarrow> patients (run d cs) = None"
  by (induction cs arbitrary: d) (simp_all add: patients_exec)

lemma patients_initDatabase_new: "patients (initDatabase None) = None"
  by (simp add: initDatabase_def createTables_def createPendingRegistrationsTable_def
      new_database_def Let_def)

subsection \<open>The admin rows under the user management operations\<close>

lemma admin_rows_update_user_status:
  "update_user_status st now userId d = Inr d1 \<Longrightarrow> admin_rows d1 = admin_rows d"
  unfolding update_user_status_def admin_rows_def user_rows_def
  by (auto split: option.splits simp: admin_filter_status_update)

lemma admin_rows_suspendUser: "admin_rows (snd (suspendUser d now userId)) = admin_rows d"
  unfolding suspendUser_def catch_false_def
  by (auto split: sum.splits dest: admin_rows_update_user_status)

lemma admin_rows_reactivateUser: "admin_rows (snd (reactivateUser d now userId)) = admin_rows d"
  unfolding reactivateUser_def catch_false_def
  by (auto split: sum.splits dest: admin_rows_update_user_status)

lemma admin_rows_delete_patients_of:
  "delete_patients_of userId d = Inr d1 \<Longrightarrow> admin_rows d1 = admin_rows d"
  unfolding delete_patients_of_def admin_rows_def user_rows_def
  by (auto split: option.splits)

lemma admin_rows_delete_doctors_of:
  "delete_doctors_of userId d = Inr d1 \<Longrightarrow> admin_rows d1 = admin_rows d"
  unfolding delete_doctors_of_def admin_rows_def user_rows_def
  by (auto split: option.splits)

lemma admin_rows_delete_user_row:
  "delete_user_row userId d = Inr d1 \<Longrightarrow> admin_rows d1 = admin_rows d"
  unfolding delete_user_row_def admin_rows_def user_rows_def
  by (auto split: option.splits intro!: filter_filter_absorb simp del: filter_filter)

lemma admin_rows_deleteUser: "admin_rows (snd (deleteUser d userId)) = admin_rows d"
  unfolding deleteUser_def deleteUser_body_def catch_false_def
  by (auto split: sum.splits
      dest!: admin_rows_delete_patients_of admin_rows_delete_doctors_of admin_rows_delete_user_row)

subsection \<open>Deleting a user\<close>

text \<open>
  Without a table \<^verbatim>\<open>patients\<close> the first DELETE of \<^verbatim>\<open>deleteUser\<close> throws: the function
  returns false and the store is as before.
\<close>

lemma deleteUser_without_patients_table:
  "patients d = None \<Longrightarrow> deleteUser d userId = (False, d)"
  by (auto simp: deleteUser_def deleteUser_body_def catch_false_def select_role_def
      delete_patients_of_def split: option.splits sum.splits)

text \<open>
  When it returns true, the rows of \<^verbatim>\<open>patients\<close> and \<^verbatim>\<open>doctors\<close> for the user are gone and
  so is every user row of that id that is not an admin's; the table \<^verbatim>\<open>customers\<close> is as
  before.
\<close>

lemma deleteUser_true:
  assumes "deleteUser d userId = (True, d')"
  shows "filter (\<lambda>x. d_user_id x = userId) (doctor_rows d') = []"
    and "filter (\<lambda>u. u_id u = Some userId \<and> u_role u \<noteq> ''admin'') (user_rows d') = []"
    and "customers d' = customers d"
proof -
  from assms obtain ut pt dt where ut: "users d = Some ut" and pt: "patients d = Some pt"
    and dt: "doctors d = Some dt"
    and d': "d' = d\<lparr>patients := Some (pt\<lparr>rows := filter (\<lambda>p. p_user_id p \<noteq> userId) (rows pt)\<rparr>),
                    doctors := Some (dt\<lparr>rows := filter (\<lambda>x. d_user_id x \<noteq> userId) (rows dt)\<rparr>),
                    users := Some (ut\<lparr>rows :=
                       filter (\<lambda>u. \<not> (u_id u = Some userId \<and> u_role u \<noteq> ''admin'')) (rows ut)\<rparr>)\<rparr>"
    by (auto simp: deleteUser_def deleteUser_body_def catch_false_def select_role_def
        delete_patients_of_def delete_doctors_of_def delete_user_row_def
        split: option.splits sum.splits if_splits)
  show "filter (\<lambda>x. d_user_id x = userId) (doctor_rows d') = []"
    using d' by (simp add: doctor_rows_def filter_empty_conv)
  show "customers d' = customers d" using d' by simp
  show "filter (\<lambda>u. u_id u = Some userId \<and> u_role u \<noteq> ''admin'') (user_rows d') = []"
    using d' by (simp add: user_rows_def filter_empty_conv)
qed

subsection \<open>The outcomes of an approval\<close>

lemma approve_cases:
  assumes "approvePendingRegistration d now pid a n = (r, d')"
  obtains (unchanged) e where "r = Inl e" and "d' = d"
  | (partial) e prt reg ut i where "r = Inl e"
      and "e = NoSuchTable ''doctors'' \<or> e = UniqueConstraint ''doctors''"
      and "pending_registrations d = Some prt"
      and "find (\<lambda>r. pr_id r = Some pid) (rows prt) = Some reg"
      and "pr_role reg = ''doctor''"
      and "users d = Some ut"
      and "i = next_rowid (map u_id (rows ut)) (seq ut)"
      and "d' = d\<lparr>users := Some \<lparr>rows = rows ut @ [user_of_registration reg i now], seq = i\<rparr>\<rparr>"
  | (approved) prt reg ut i where "r = Inr True"
      and "pending_registrations d = Some prt"
      and "find (\<lambda>r. pr_id r = Some pid) (rows prt) = Some reg"
      and "users d = Some ut"
      and "pr_role reg \<in> set [''admin'', ''doctor'', ''customer'', ''staff'']"
      and "pr_username reg \<notin> set (map u_username (rows ut))"
      and "pr_email reg \<notin> set (map u_email (rows ut))"
      and "i = next_rowid (map u_id (rows ut)) (seq ut)"
      and "users d' = Some \<lparr>rows = rows ut @ [user_of_registration reg i now], seq = i\<rparr>"
      and "pr_role reg \<noteq> ''doctor'' \<Longrightarrow> doctors d' = doctors d"
      and "pr_role reg = ''doctor'' \<Longrightarrow> \<exists>dt j. doctors d = Some dt
             \<and> j = next_rowid (map d_id (rows dt)) (seq dt)
             \<and> doctors d' = Some \<lparr>rows = rows dt @ [doctor_of_registration reg j i now], seq = j\<rparr>"
      and "pending_registrations d' = Some (prt\<lparr>rows :=
             map (\<lambda>x. if pr_id x = Some pid then decide ''approved'' a (or_null n) now x else x)
               (rows prt)\<rparr>)"
      and "patients d' = patients d" and "customers d' = customers d"
proof (cases "select_pending pid d")
  case (Inl e)
  with assms have "r = Inl e" "d' = d" by (auto simp: approvePendingRegistration_def)
  then show ?thesis by (rule unchanged)
next
  case (Inr x)
  then obtain prt where prt: "pending_registrations d = Some prt"
    and x: "x = find (\<lambda>r. pr_id r = Some pid) (rows prt)"
    by (rule select_pending_Inr)
  show ?thesis
  proof (cases x)
    case None
    with assms Inr have "r = Inl (JsError ''Pending registration not found'')" "d' = d"
      by (auto simp: approvePendingRegistration_def)
    then show ?thesis by (rule unchanged)
  next
    case (Some reg)
    note reg = Some
    show ?thesis
    proof (cases "insert_user (pr_username reg) (pr_email reg) (pr_password reg) (pr_role reg)
                    (pr_full_name reg) (or_null (pr_phone reg)) now d")
      case (Inl e)
      with assms Inr reg have "r = Inl e" "d' = d"
        by (auto simp: approvePendingRegistration_def)
      then show ?thesis by (rule unchanged)
    next
      case (Inr p)
      obtain i d1 where p: "p = (i, d1)" by (cases p)
      from Inr p obtain ut where ut: "users d = Some ut"
        and role: "pr_role reg \<in> set [''admin'', ''doctor'', ''customer'', ''staff'']"
        and fresh_un: "pr_username reg \<notin> set (map u_username (rows ut))"
        and fresh_em: "pr_email reg \<notin> set (map u_email (rows ut))"
        and i: "i = next_rowid (map u_id (rows ut)) (seq ut)"
        and d1: "d1 = d\<lparr>users := Some \<lparr>rows = rows ut @ [user_of_registration reg i now], seq = i\<rparr>\<rparr>"
        by (auto elim!: insert_user_Inr simp: user_of_registration_def)
      have prt1: "pending_registrations d1 = Some prt" using prt d1 by simp
      show ?thesis
      proof (cases "pr_role reg = ''doctor''")
        case False
        have "approvePendingRegistration d now pid a n =
                (Inr True, d1\<lparr>pending_registrations := Some (prt\<lparr>rows :=
                   map (\<lambda>x. if pr_id x = Some pid then decide ''approved'' a (or_null n) now x else x)
                     (rows prt)\<rparr>)\<rparr>)"
          using \<open>select_pending pid d = Inr x\<close> reg Inr p False
          by (simp add: approvePendingRegistration_def update_pending_status_Inr [OF prt1])
        with assms have r: "r = Inr True"
          and d': "d' = d1\<lparr>pending_registrations := Some (prt\<lparr>rows :=
                   map (\<lambda>x. if pr_id x = Some pid then decide ''approved'' a (or_null n) now x else x)
                     (rows prt)\<rparr>)\<rparr>" by simp_all
        show ?thesis
          by (rule approved [OF r prt _ ut role fresh_un fresh_em i])
             (use x reg d' d1 False in simp_all)
      next
        case True
        let ?doc = "\<lparr>d_id = None, d_user_id = i,
                              d_specialization = pr_specialization reg,
                              d_license_number = pr_license_number reg,
                              d_experience_years = pr_experience_years reg,
                              d_consultation_fee = pr_consultation_fee reg,
                              d_available_days = pr_available_days reg,
                              d_available_time_start = pr_available_time_start reg,
                              d_available_time_end = pr_available_time_end reg,
                              d_created_at = None\<rparr>"
        obtain rd d2 where cd: "createDoctor d1 now ?doc = (rd, d2)" by (cases "createDoctor d1 now ?doc")
        from cd show ?thesis
        proof (cases rule: createDoctor_cases)
          case (fail e)
          have "approvePendingRegistration d now pid a n = (Inl e, d1)"
            using \<open>select_pending pid d = Inr x\<close> reg Inr p True cd fail
            by (simp add: approvePendingRegistration_def)
          with assms have "r = Inl e" "d' = d1" by simp_all
          then show ?thesis
            using fail(3) prt x reg True ut i d1 by (intro partial [of e prt reg ut i]) simp_all
        next
          case (ok dt j)
          have prt2: "pending_registrations d2 = Some prt" using prt1 ok by simp
          have "approvePendingRegistration d now pid a n =
                (Inr True, d2\<lparr>pending_registrations := Some (prt\<lparr>rows :=
                   map (\<lambda>x. if pr_id x = Some pid then decide ''approved'' a (or_null n) now x else x)
                     (rows prt)\<rparr>)\<rparr>)"
            using \<open>select_pending pid d = Inr x\<close> reg Inr p True cd ok(1)
            by (simp add: approvePendingRegistration_def update_pending_status_Inr [OF prt2])
          with assms have r: "r = Inr True"
            and d': "d' = d2\<lparr>pending_registrations := Some (prt\<lparr>rows :=
                   map (\<lambda>x. if pr_id x = Some pid then decide ''approved'' a (or_null n) now x else x)
                     (rows prt)\<rparr>)\<rparr>" by simp_all
          have dt: "doctors d = Some dt" using ok(2) d1 by simp
          show ?thesis
            by (rule approved [OF r prt _ ut role fresh_un fresh_em i])
               (use x reg d' d1 True ok dt in \<open>simp_all add: doctor_of_registration_def\<close>)
        qed
      qed
    qed
  qed
qed

lemma approve_users_after_insert:
  assumes "select_pending pid d = Inr (Some reg)"
    and "insert_user (pr_username reg) (pr_email reg) (pr_password reg) (pr_role reg)
           (pr_full_name reg) (or_null (pr_phone reg)) now d = Inr (i, d1)"
  shows "users (snd (approvePendingRegistration d now pid a n)) = users d1"
proof -
  have doc: "\<And>x e d2. createDoctor d1 now x = (e, d2) \<Longrightarrow> users d2 = users d1"
    using users_createDoctor by (metis snd_conv)
  show ?thesis
    using assms unfolding approvePendingRegistration_def
    by (auto split: sum.splits prod.splits dest!: doc users_update_pending_status)
qed

lemma approve_not_found:
  assumes "pending_registrations d = Some prt"
    and "find (\<lambda>r. pr_id r = Some pid) (rows prt) = None"
  shows "approvePendingRegistration d now pid a n =
           (Inl (JsError ''Pending registration not found''), d)"
  using assms by (simp add: approvePendingRegistration_def select_pending_def)

lemma approve_again:
  assumes "approvePendingRegistration d now pid a n = (Inr True, d')"
  shows "approvePendingRegistration d' now2 pid a2 n2 = (Inl (UniqueConstraint ''users''), d')"
  using assms
proof (cases rule: approve_cases)
  case (approved prt reg ut i)
  let ?reg' = "decide ''approved'' a (or_null n) now reg"
  have sel: "select_pending pid d' = Inr (Some ?reg')"
    using approved(2,3,12) by (simp add: select_pending_def find_map_decide)
  have un: "pr_username ?reg' \<in> set (map u_username
               (rows \<lparr>rows = rows ut @ [user_of_registration reg i now], seq = i\<rparr>))"
    by (simp add: decide_def user_of_registration_def)
  have role: "pr_role ?reg' \<in> set [''admin'', ''doctor'', ''customer'', ''staff'']"
    using approved(5) by (simp add: decide_def)
  have "insert_user (pr_username ?reg') (pr_email ?reg') (pr_password ?reg') (pr_role ?reg')
          (pr_full_name ?reg') (or_null (pr_phone ?reg')) now2 d' = Inl (UniqueConstraint ''users'')"
    by (rule insert_user_Inl_unique [OF approved(9) role un])
  with sel show ?thesis by (simp add: approvePendingRegistration_def)
qed simp_all

lemma or_null_idem: "or_null (or_null x) = or_null x"
  by (simp add: or_null_def split: option.splits)

text \<open>
  Once the staged row is found and the user insert has gone through, the approval
  returns true unless the doctor insert fails.
\<close>

lemma approve_returns_true:
  assumes sel: "select_pending pid d = Inr (Some reg)"
    and ins: "insert_user (pr_username reg) (pr_email reg) (pr_password reg) (pr_role reg)
           (pr_full_name reg) (or_null (pr_phone reg)) now d = Inr (i, d1)"
    and ok: "pr_role reg \<noteq> ''doctor'' \<or>
             (\<exists>dt. doctors d = Some dt \<and>
                (or_null (pr_license_number reg) = None
                 \<or> or_null (pr_license_number reg) \<notin> set (map d_license_number (rows dt))))"
  shows "fst (approvePendingRegistration d now pid a n) = Inr True"
proof -
  from sel obtain prt where prt: "pending_registrations d = Some prt"
    by (rule select_pending_Inr)
  from ins have same: "pending_registrations d1 = pending_registrations d"
      "doctors d1 = doctors d"
    by (auto elim!: insert_user_Inr)
  have prt1: "pending_registrations d1 = Some prt" using prt same by simp
  show ?thesis
  proof (cases "pr_role reg = ''doctor''")
    case False
    then show ?thesis
      using sel ins
      by (simp add: approvePendingRegistration_def update_pending_status_Inr [OF prt1])
  next
    case True
    with ok obtain dt where dt: "doctors d = Some dt"
      and lic: "or_null (pr_license_number reg) = None
                 \<or> or_null (pr_license_number reg) \<notin> set (map d_license_number (rows dt))"
      by blast
    let ?doc = "\<lparr>d_id = None, d_user_id = i,
                  d_specialization = pr_specialization reg,
                  d_license_number = pr_license_number reg,
                  d_experience_years = pr_experience_years reg,
                  d_consultation_fee = pr_consultation_fee reg,
                  d_available_days = pr_available_days reg,
                  d_available_time_start = pr_available_time_start reg,
                  d_available_time_end = pr_available_time_end reg,
                  d_created_at = None\<rparr>"
    obtain rd d2 where cd: "createDoctor d1 now ?doc = (rd, d2)"
      by (cases "createDoctor d1 now ?doc")
    from cd have "\<exists>j. rd = Inr j" and prt2: "pending_registrations d2 = Some prt"
      using dt lic same prt1
      by (auto simp: createDoctor_def Let_def split: if_splits)
    then obtain j where rd: "rd = Inr j" by blast
    show ?thesis
      using sel ins True cd rd
      by (simp add: approvePendingRegistration_def update_pending_status_Inr [OF prt2])
  qed
qed

section \<open>Whole days and whole years\<close>

text \<open>Rounding the quotient up is at most \<open>n\<close> exactly when the time is at most \<open>n\<close> days.\<close>

lemma ceil_days_le:
  "\<lceil>real_of_int a / (1000 * 60 * 60 * 24)\<rceil> \<le> n \<longleftrightarrow> a \<le> n * 86400000"
proof -
  have "\<lceil>real_of_int a / (1000 * 60 * 60 * 24)\<rceil> \<le> n
        \<longleftrightarrow> real_of_int a / 86400000 \<le> real_of_int n"
    by (simp add: ceiling_le_iff)
  also have "\<dots> \<longleftrightarrow> real_of_int a \<le> real_of_int (n * 86400000)"
    by (simp add: pos_divide_le_eq)
  also have "\<dots> \<longleftrightarrow> a \<le> n * 86400000"
    by (rule of_int_le_iff)
  finally show ?thesis .
qed

lemma diffDays_parsed:
  assumes "newDate env (c_created_at patient) = Some created"
  shows "diffDays env now patient =
      Some \<lceil>real_of_int \<bar>getTime now - getTime created\<bar> / (1000 * 60 * 60 * 24)\<rceil>"
  unfolding diffDays_def Let_def assms by (simp only: option.case)

lemma registrationPeriod_ok_iff:
  assumes "newDate env (c_created_at patient) = Some created"
  shows "registrationPeriod_ok r (diffDays env now patient) \<longleftrightarrow>
     (if r = ''last-week'' then \<bar>getTime now - getTime created\<bar> \<le> 7 * 86400000
      else if r = ''last-month'' then \<bar>getTime now - getTime created\<bar> \<le> 30 * 86400000
      else if r = ''last-3-months'' then \<bar>getTime now - getTime created\<bar> \<le> 90 * 86400000
      else if r = ''last-year'' then \<bar>getTime now - getTime created\<bar> \<le> 365 * 86400000
      else True)"
  by (simp only: diffDays_parsed [OF assms] registrationPeriod_ok_def option.case not_less
      ceil_days_le)

lemma registrationPeriod_ok_mono:
  "registrationPeriod_ok ''last-week'' x \<Longrightarrow> registrationPeriod_ok ''last-month'' x"
  "registrationPeriod_ok ''last-month'' x \<Longrightarrow> registrationPeriod_ok ''last-3-months'' x"
  "registrationPeriod_ok ''last-3-months'' x \<Longrightarrow> registrationPeriod_ok ''last-year'' x"
  by (auto simp: registrationPeriod_ok_def split: option.splits)

lemma patient_filter_period:
  "patient_filter env now searchTerm (filters\<lparr>registrationPeriod := r\<rparr>) patient \<longleftrightarrow>
     patient_filter env now searchTerm (filters\<lparr>registrationPeriod := ''all''\<rparr>) patient
     \<and> (r = ''all'' \<or> registrationPeriod_ok r (diffDays env now patient))"
proof -
  define core :: "bool \<Rightarrow> bool \<Rightarrow> bool \<Rightarrow> (js_exception + bool) \<Rightarrow> bool \<Rightarrow> bool
      \<Rightarrow> js_exception + bool"
    where "core = (\<lambda>M G B P H R.
      if \<not> M then Inr False
      else if G then Inr False
      else if B then Inr False
      else (case P of
              Inl e \<Rightarrow> Inl e
            | Inr in_range \<Rightarrow>
                if \<not> in_range then Inr False
                else if H then Inr False
                else if R then Inr False
                else Inr True))"
  define M where "M = (includes_str (toLowerCase env (c_full_name patient)) (toLowerCase env searchTerm)
          \<or> includes_str (toLowerCase env (c_email patient)) (toLowerCase env searchTerm)
          \<or> (case c_phone patient of
                None \<Rightarrow> False
              | Some phone \<Rightarrow> phone \<noteq> [] \<and> includes_str phone searchTerm))"
  define G where "G = (gender filters \<noteq> ''all'' \<and> c_gender patient \<noteq> Some (gender filters))"
  define B where "B = (bloodGroup filters \<noteq> ''all''
      \<and> c_blood_group patient \<noteq> Some (bloodGroup filters))"
  define P where "P = (if ageRange filters \<noteq> ''all''
               then (case filter_age patient of
                       Inl e \<Rightarrow> Inl e
                     | Inr age \<Rightarrow> Inr (ageRange_ok (ageRange filters) age))
               else Inr True)"
  define H where "H = (hasConditions filters \<noteq> ''all''
                \<and> (let has = (case c_medical_conditions patient of
                                 None \<Rightarrow> False
                               | Some m \<Rightarrow> m \<noteq> [] \<and> trim env m \<noteq> [])
                    in (hasConditions filters = ''yes'' \<and> \<not> has)
                     \<or> (hasConditions filters = ''no'' \<and> has)))"
  have cb: "patient_callback env now searchTerm (filters\<lparr>registrationPeriod := q\<rparr>) patient
      = core M G B P H (q \<noteq> ''all'' \<and> \<not> registrationPeriod_ok q (diffDays env now patient))"
    for q
  proof -
    have flds: "gender (filters\<lparr>registrationPeriod := q\<rparr>) = gender filters"
      "bloodGroup (filters\<lparr>registrationPeriod := q\<rparr>) = bloodGroup filters"
      "ageRange (filters\<lparr>registrationPeriod := q\<rparr>) = ageRange filters"
      "hasConditions (filters\<lparr>registrationPeriod := q\<rparr>) = hasConditions filters"
      "registrationPeriod (filters\<lparr>registrationPeriod := q\<rparr>) = q"
      by simp_all
    show ?thesis
      unfolding patient_callback_def core_def M_def G_def B_def P_def H_def Let_def flds
      by (rule refl)
  qed
  have gen: "core M G B P H R = Inr True \<longleftrightarrow> core M G B P H False = Inr True \<and> \<not> R" for R
    unfolding core_def by (cases P) auto
  show ?thesis
    unfolding patient_filter_def cb
    using gen [of "r \<noteq> ''all'' \<and> \<not> registrationPeriod_ok r (diffDays env now patient)"]
      gen [of "''all'' \<noteq> ''all'' \<and> \<not> registrationPeriod_ok ''all'' (diffDays env now patient)"]
    by auto
qed

lemma patient_filter_period_mono:
  assumes "registrationPeriod_ok r1 (diffDays env now patient)
           \<Longrightarrow> registrationPeriod_ok r2 (diffDays env now patient)"
    and "r1 \<noteq> ''all''"
    and "patient_filter env now searchTerm (filters\<lparr>registrationPeriod := r1\<rparr>) patient"
  shows "patient_filter env now searchTerm (filters\<lparr>registrationPeriod := r2\<rparr>) patient"
  using assms patient_filter_period [where r = r1 and env = env and now = now
      and searchTerm = searchTerm and filters = filters and patient = patient]
    patient_filter_period [where r = r2 and env = env and now = now
      and searchTerm = searchTerm and filters = filters and patient = patient]
  by blast

lemma calculateAge_parsed:
  assumes "dob = Some s" and "s \<noteq> []" and "newDate env s = Some birth"
  shows "calculateAge env today dob =
     Num (getFullYear today - getFullYear birth
          - (if getMonth today < getMonth birth
                \<or> (getMonth today = getMonth birth \<and> getDate today < getDate birth)
             then 1 else 0))"
  using assms by (auto simp: calculateAge_def Let_def)

lemma ageRange_ok_Num:
  "ageRange_ok ''0-18'' (Num a) \<longleftrightarrow> a \<le> 18"
  "ageRange_ok ''19-30'' (Num a) \<longleftrightarrow> 19 \<le> a \<and> a \<le> 30"
  "ageRange_ok ''31-50'' (Num a) \<longleftrightarrow> 31 \<le> a \<and> a \<le> 50"
  "ageRange_ok ''51+'' (Num a) \<longleftrightarrow> 51 \<le> a"
  by (auto simp: ageRange_ok_def)

lemma includes_str_empty: "includes_str s []"
  by (cases s) simp_all

section \<open>Properties of the store\<close>

text \<open>
  Claim C10. For every user row with role admin, \<^verbatim>\<open>suspendUser\<close>, \<^verbatim>\<open>reactivateUser\<close> and
  \<^verbatim>\<open>deleteUser\<close> leave the row as it is, whatever user id they are called with: the admin
  rows of the store after the call are the admin rows before it, none suspended, none
  altered, none deleted.
\<close>

theorem admin_rows_immutable:
  "admin_rows (snd (suspendUser d now userId)) = admin_rows d
   \<and> admin_rows (snd (reactivateUser d now userId)) = admin_rows d
   \<and> admin_rows (snd (deleteUser d userId)) = admin_rows d"
  by (simp add: admin_rows_suspendUser admin_rows_reactivateUser admin_rows_deleteUser)

theorem admin_rows_immutable_witness:
  "admin_rows (snd (suspendUser legacy_store ''2024-03-01 10:00:00'' 1))
     = [sample_user 1 ''root'' ''admin'']
   \<and> admin_rows (snd (reactivateUser legacy_store ''2024-03-01 10:00:00'' 1))
     = [sample_user 1 ''root'' ''admin'']
   \<and> admin_rows (snd (deleteUser legacy_store 1)) = [sample_user 1 ''root'' ''admin'']"
proof -
  have "admin_rows legacy_store = [sample_user 1 ''root'' ''admin'']"
    by (simp add: admin_rows_def user_rows_def legacy_store_def sample_user_def)
  then show ?thesis
    using admin_rows_immutable [of legacy_store "''2024-03-01 10:00:00''" 1] by simp
qed

text \<open>
  Claim C9. After \<^verbatim>\<open>deleteUser\<close> succeeds on a user that is not an admin, no customer
  profile row and no doctor profile row of that user should remain. The function deletes
  from a table \<^verbatim>\<open>patients\<close>, not from \<^verbatim>\<open>customers\<close>. On a store that has a table
  \<^verbatim>\<open>patients\<close> the call returns true, the user row is gone and the customer profile of
  that user is still in \<^verbatim>\<open>customers\<close>; on the same store as the schema makes it (no table
  \<^verbatim>\<open>patients\<close>) the call returns false and deletes nothing.
\<close>

theorem deleteUser_keeps_customer_profile:
  "deleteUser legacy_store 2 =
     (True, legacy_store\<lparr>users := Some \<lparr>rows = [sample_user 1 ''root'' ''admin''], seq = 2\<rparr>\<rparr>)
   \<and> customer_rows (snd (deleteUser legacy_store 2)) = [sample_profile 1 2]
   \<and> p_user_id (sample_profile 1 2) = 2
   \<and> deleteUser schema_store 2 = (False, schema_store)"
  by (simp add: deleteUser_def deleteUser_body_def catch_false_def select_role_def
      delete_patients_of_def delete_doctors_of_def delete_user_row_def legacy_store_def
      schema_store_def sample_user_def sample_profile_def empty_table_def customer_rows_def)

text \<open>
  Claim C3. On a database whose tables the program's own schema setup created, whatever
  operations of the store have run since: \<^verbatim>\<open>createPatient\<close> throws (no such table
  \<^verbatim>\<open>patients\<close>) and changes nothing, \<^verbatim>\<open>getAllPatients\<close> returns the empty list, and the
  patient directory served to a doctor or an admin is empty.
\<close>

theorem patients_table_never_exists:
  "fst (createPatient (run (initDatabase None) cs) now patient) = Inl (NoSuchTable ''patients'')
   \<and> snd (createPatient (run (initDatabase None) cs) now patient) = run (initDatabase None) cs
   \<and> getAllPatients (run (initDatabase None) cs) = []
   \<and> handleGetPatients (run (initDatabase None) cs) ''doctor'' = PatientsJson [] 0
   \<and> handleGetPatients (run (initDatabase None) cs) ''admin'' = PatientsJson [] 0
   \<and> customers (initDatabase None) = Some empty_table
   \<and> patients (initDatabase None) = None"
proof -
  have n: "patients (run (initDatabase None) cs) = None"
    by (rule patients_run) (rule patients_initDatabase_new)
  have g: "getAllPatients (run (initDatabase None) cs) = []"
    using n by (simp add: getAllPatients_def split: option.splits)
  have c: "customers (initDatabase None) = Some empty_table"
    by (simp add: initDatabase_def createTables_def createPendingRegistrationsTable_def
        new_database_def create_if_not_exists_def Let_def)
  show ?thesis
    using n g c by (simp add: createPatient_def handleGetPatients_def patients_initDatabase_new)
qed

theorem patients_table_never_exists_witness:
  "fst (createPatient
          (run (initDatabase None)
             [(sample_hash, ''2024-03-01 10:00:00'', CreateUser (sample_user 0 ''asha'' ''customer'')),
              (sample_hash, ''2024-03-01 10:00:05'', CreatePatient (sample_profile 0 1))])
          ''2024-03-01 10:00:09'' (sample_profile 0 1)) = Inl (NoSuchTable ''patients'')
   \<and> getAllPatients
          (run (initDatabase None)
             [(sample_hash, ''2024-03-01 10:00:00'', CreateUser (sample_user 0 ''asha'' ''customer'')),
              (sample_hash, ''2024-03-01 10:00:05'', CreatePatient (sample_profile 0 1))]) = []"
  using patients_table_never_exists
    [of "[(sample_hash, ''2024-03-01 10:00:00'', CreateUser (sample_user 0 ''asha'' ''customer'')),
          (sample_hash, ''2024-03-01 10:00:05'', CreatePatient (sample_profile 0 1))]"
        "''2024-03-01 10:00:09''" "sample_profile 0 1"]
  by simp

section \<open>Properties of the registration workflow\<close>

text \<open>
  Claim C1, as stated: a second approve on the same id fails with AlreadyDecided without
  creating a user, approve on a registration whose status is not 'pending' fails with
  AlreadyDecided, and approve on an unknown id fails with NotFound. The function never
  reads the status: the registration 2 of the sample store is rejected, and approving
  it returns true and creates its user.
\<close>

theorem approve_rejected_counterexample:
  "select_pending 2 review_store = Inr (Some (staged 2 ''diaz'' ''staff'' None ''rejected''))
   \<and> fst (approvePendingRegistration review_store ''2024-03-01 10:00:00'' 2 1 None) = Inr True
   \<and> user_rows (snd (approvePendingRegistration review_store ''2024-03-01 10:00:00'' 2 1 None))
       = user_rows review_store
         @ [user_of_registration (staged 2 ''diaz'' ''staff'' None ''rejected'') 3
              ''2024-03-01 10:00:00'']"
  by (simp add: approvePendingRegistration_def select_pending_def insert_user_def
      update_pending_status_def next_rowid_def or_null_def review_store_def sample_user_def
      sample_doctor_def staged_def user_of_registration_def user_rows_def Let_def)

text \<open>
  Claim C1, amended. Approve on an id that no staged row has fails with the error
  'Pending registration not found' and leaves the store as it is. A second approve on the
  same id, directly after a first one that returned true, creates no user and changes
  nothing: it fails with the uniqueness error of the users table, since the first call
  inserted that username.
\<close>

theorem approve_not_found_then_repeated:
  "(pending_registrations d = Some prt
      \<and> find (\<lambda>r. pr_id r = Some pendingId) (rows prt) = None
    \<longrightarrow> approvePendingRegistration d now pendingId adminUserId adminNotes
          = (Inl (JsError ''Pending registration not found''), d))
   \<and> (approvePendingRegistration d now pendingId adminUserId adminNotes = (Inr True, d')
    \<longrightarrow> approvePendingRegistration d' now2 pendingId adminUserId2 adminNotes2
          = (Inl (UniqueConstraint ''users''), d'))"
  using approve_not_found approve_again by blast

theorem approve_not_found_then_repeated_witness:
  "approvePendingRegistration review_store ''2024-03-01 10:00:00'' 99 1 None
     = (Inl (JsError ''Pending registration not found''), review_store)
   \<and> approvePendingRegistration
       (snd (approvePendingRegistration review_store ''2024-03-01 10:00:00'' 1 1 None))
       ''2024-03-02 10:00:00'' 1 1 (Some ''again'')
     = (Inl (UniqueConstraint ''users''),
        snd (approvePendingRegistration review_store ''2024-03-01 10:00:00'' 1 1 None))"
proof -
  have a: "pending_registrations review_store = Some
      \<lparr>rows = [staged 1 ''chen'' ''staff'' None ''pending'',
         staged 2 ''diaz'' ''staff'' None ''rejected'',
         staged 3 ''eze'' ''doctor'' (Some ''MD-1'') ''pending'',
         staged 4 ''faro'' ''doctor'' (Some ''MD-2'') ''pending''], seq = 4\<rparr>"
    by (simp add: review_store_def)
  have c: "fst (approvePendingRegistration review_store ''2024-03-01 10:00:00'' 1 1 None)
      = Inr True"
    by (simp add: approvePendingRegistration_def select_pending_def insert_user_def
      update_pending_status_def next_rowid_def or_null_def review_store_def sample_user_def
      sample_doctor_def staged_def Let_def)
  have c': "approvePendingRegistration review_store ''2024-03-01 10:00:00'' 1 1 None
      = (Inr True, snd (approvePendingRegistration review_store ''2024-03-01 10:00:00'' 1 1 None))"
    using c by (metis prod.collapse)
  have 1: "approvePendingRegistration review_store ''2024-03-01 10:00:00'' 99 1 None
     = (Inl (JsError ''Pending registration not found''), review_store)"
    by (rule approve_not_found_then_repeated [THEN conjunct1, THEN mp])
       (rule conjI, rule a, simp add: staged_def)
  have 2: "approvePendingRegistration
       (snd (approvePendingRegistration review_store ''2024-03-01 10:00:00'' 1 1 None))
       ''2024-03-02 10:00:00'' 1 1 (Some ''again'')
     = (Inl (UniqueConstraint ''users''),
        snd (approvePendingRegistration review_store ''2024-03-01 10:00:00'' 1 1 None))"
    by (rule approve_not_found_then_repeated [THEN conjunct2, THEN mp]) (rule c')
  from 1 2 show ?thesis by (rule conjI)
qed

text \<open>
  Claim C2, as stated: an approval either creates the user, the doctor profile of a
  doctor and the approved status together, or fails and leaves the store unchanged. The
  three statements run one after the other with nothing to undo them. The registration 3
  of the sample store is a doctor's whose license number a doctor already has: the user
  insert goes through, the doctor insert fails, and the call throws with the new user in
  the store, no doctor profile for him and the registration still pending.
\<close>

theorem approve_partial_counterexample:
  "approvePendingRegistration review_store ''2024-03-01 10:00:00'' 3 1 None =
     (Inl (UniqueConstraint ''doctors''),
      review_store\<lparr>users := Some \<lparr>rows =
        [sample_user 1 ''root'' ''admin'', sample_user 2 ''bose'' ''doctor'',
         user_of_registration (staged 3 ''eze'' ''doctor'' (Some ''MD-1'') ''pending'') 3
           ''2024-03-01 10:00:00''], seq = 3\<rparr>\<rparr>)
   \<and> doctor_rows (snd (approvePendingRegistration review_store ''2024-03-01 10:00:00'' 3 1 None))
       = [sample_doctor 1 2 ''MD-1'']
   \<and> map pr_status
        (pending_rows (snd (approvePendingRegistration review_store ''2024-03-01 10:00:00'' 3 1 None)))
       = [Some ''pending'', Some ''rejected'', Some ''pending'', Some ''pending'']"
  by (simp add: approvePendingRegistration_def select_pending_def insert_user_def
      createDoctor_def update_pending_status_def next_rowid_def or_null_def or_null_num_def
      review_store_def sample_user_def sample_doctor_def staged_def user_of_registration_def
      doctor_rows_def pending_rows_def Let_def)

text \<open>
  Claim C2, amended. An approval ends in one of three ways. It fails and the store is
  unchanged (no such row, or the user insert is refused). It returns true, and then the
  store has exactly one more user, made from the staged row, exactly one more doctor
  profile for that user when the staged role is doctor and none otherwise, and the
  rows of that id are marked approved with reviewer, notes and time. Or the staged role is
  doctor and the doctor insert fails: the call throws, the new user row stays in the
  store, and there is no doctor profile and no change to the registration.
\<close>

theorem approve_outcomes:
  assumes "approvePendingRegistration d now pendingId adminUserId adminNotes = (r, d')"
  shows "(\<exists>e. r = Inl e \<and> d' = d)
       \<or> (\<exists>reg i. r = Inr True
             \<and> select_pending pendingId d = Inr (Some reg)
             \<and> user_rows d' = user_rows d @ [user_of_registration reg i now]
             \<and> (if pr_role reg = ''doctor''
                 then \<exists>j. doctor_rows d' = doctor_rows d @ [doctor_of_registration reg j i now]
                 else doctors d' = doctors d)
             \<and> pending_rows d' =
                 map (\<lambda>x. if pr_id x = Some pendingId
                           then decide ''approved'' adminUserId (or_null adminNotes) now x else x)
                   (pending_rows d))
       \<or> (\<exists>reg i. (r = Inl (UniqueConstraint ''doctors'') \<or> r = Inl (NoSuchTable ''doctors''))
             \<and> select_pending pendingId d = Inr (Some reg)
             \<and> pr_role reg = ''doctor''
             \<and> user_rows d' = user_rows d @ [user_of_registration reg i now]
             \<and> doctors d' = doctors d
             \<and> pending_registrations d' = pending_registrations d)"
  using assms
proof (cases rule: approve_cases)
  case (unchanged e)
  then show ?thesis by blast
next
  case (partial e prt reg ut i)
  have "select_pending pendingId d = Inr (Some reg)"
    using partial(3,4) by (simp add: select_pending_def)
  moreover have "user_rows d' = user_rows d @ [user_of_registration reg i now]"
    using partial(6,8) by (simp add: user_rows_def)
  moreover have "doctors d' = doctors d" "pending_registrations d' = pending_registrations d"
    using partial(8) by simp_all
  ultimately show ?thesis using partial(1,2,5) by blast
next
  case (approved prt reg ut i)
  have sel: "select_pending pendingId d = Inr (Some reg)"
    using approved(2,3) by (simp add: select_pending_def)
  have us: "user_rows d' = user_rows d @ [user_of_registration reg i now]"
    using approved(4,9) by (simp add: user_rows_def)
  have doc: "if pr_role reg = ''doctor''
             then \<exists>j. doctor_rows d' = doctor_rows d @ [doctor_of_registration reg j i now]
             else doctors d' = doctors d"
  proof (cases "pr_role reg = ''doctor''")
    case True
    from approved(11) [OF True] obtain dt j where "doctors d = Some dt"
      "doctors d' = Some \<lparr>rows = rows dt @ [doctor_of_registration reg j i now], seq = j\<rparr>"
      by blast
    then have "doctor_rows d' = doctor_rows d @ [doctor_of_registration reg j i now]"
      by (simp add: doctor_rows_def)
    with True show ?thesis by auto
  next
    case False
    with approved(10) show ?thesis by simp
  qed
  have pe: "pending_rows d' =
                 map (\<lambda>x. if pr_id x = Some pendingId
                           then decide ''approved'' adminUserId (or_null adminNotes) now x else x)
                   (pending_rows d)"
    using approved(2,12) by (simp add: pending_rows_def)
  from approved(1) sel us doc pe show ?thesis by blast
qed

theorem approve_outcomes_witness:
  "(\<exists>e. (Inr True :: error + bool) = Inl e
        \<and> snd (approvePendingRegistration review_store ''2024-03-01 10:00:00'' 4 1 (Some ''ok''))
          = review_store)
   \<or> (\<exists>reg i. (Inr True :: error + bool) = Inr True
         \<and> select_pending 4 review_store = Inr (Some reg)
         \<and> user_rows (snd (approvePendingRegistration review_store ''2024-03-01 10:00:00'' 4 1 (Some ''ok'')))
             = user_rows review_store @ [user_of_registration reg i ''2024-03-01 10:00:00'']
         \<and> (if pr_role reg = ''doctor''
             then \<exists>j. doctor_rows (snd (approvePendingRegistration review_store ''2024-03-01 10:00:00'' 4 1 (Some ''ok'')))
                      = doctor_rows review_store
                        @ [doctor_of_registration reg j i ''2024-03-01 10:00:00'']
             else doctors (snd (approvePendingRegistration review_store ''2024-03-01 10:00:00'' 4 1 (Some ''ok'')))
                      = doctors review_store)
         \<and> pending_rows (snd (approvePendingRegistration review_store ''2024-03-01 10:00:00'' 4 1 (Some ''ok''))) =
             map (\<lambda>x. if pr_id x = Some 4
                       then decide ''approved'' 1 (or_null (Some ''ok'')) ''2024-03-01 10:00:00'' x
                       else x)
               (pending_rows review_store))
   \<or> (\<exists>reg i. ((Inr True :: error + bool) = Inl (UniqueConstraint ''doctors'')
                 \<or> (Inr True :: error + bool) = Inl (NoSuchTable ''doctors''))
         \<and> select_pending 4 review_store = Inr (Some reg)
         \<and> pr_role reg = ''doctor''
         \<and> user_rows (snd (approvePendingRegistration review_store ''2024-03-01 10:00:00'' 4 1 (Some ''ok'')))
             = user_rows review_store @ [user_of_registration reg i ''2024-03-01 10:00:00'']
         \<and> doctors (snd (approvePendingRegistration review_store ''2024-03-01 10:00:00'' 4 1 (Some ''ok'')))
             = doctors review_store
         \<and> pending_registrations (snd (approvePendingRegistration review_store ''2024-03-01 10:00:00'' 4 1 (Some ''ok'')))
             = pending_registrations review_store)"
proof -
  have "fst (approvePendingRegistration review_store ''2024-03-01 10:00:00'' 4 1 (Some ''ok''))
      = Inr True"
    by (simp add: approvePendingRegistration_def select_pending_def insert_user_def
      createDoctor_def update_pending_status_def next_rowid_def or_null_def or_null_num_def
      review_store_def sample_user_def sample_doctor_def staged_def Let_def)
  then have "approvePendingRegistration review_store ''2024-03-01 10:00:00'' 4 1 (Some ''ok'')
      = (Inr True,
         snd (approvePendingRegistration review_store ''2024-03-01 10:00:00'' 4 1 (Some ''ok'')))"
    by (metis prod.collapse)
  then show ?thesis by (rule approve_outcomes)
qed

text \<open>
  Claim C4, as stated: reject requires non-empty notes, fails with NotFound on an unknown
  id and with AlreadyDecided on a registration that is no longer pending. The function
  runs its UPDATE and returns true: with empty notes on the pending registration 1, with
  the id 99 that no row has (the store is unchanged), and on the registration 2 that was
  already rejected (the earlier decision is overwritten).
\<close>

theorem reject_unchecked_counterexample:
  "rejectPendingRegistration review_store ''2024-03-01 10:00:00'' 1 1 [] =
     (True, review_store\<lparr>pending_registrations := Some \<lparr>rows =
        [decide ''rejected'' 1 (Some []) ''2024-03-01 10:00:00''
           (staged 1 ''chen'' ''staff'' None ''pending''),
         staged 2 ''diaz'' ''staff'' None ''rejected'',
         staged 3 ''eze'' ''doctor'' (Some ''MD-1'') ''pending'',
         staged 4 ''faro'' ''doctor'' (Some ''MD-2'') ''pending''], seq = 4\<rparr>\<rparr>)
   \<and> rejectPendingRegistration review_store ''2024-03-01 10:00:00'' 99 1 ''unknown'' =
     (True, review_store)
   \<and> rejectPendingRegistration review_store ''2024-03-01 10:00:00'' 2 7 ''once more'' =
     (True, review_store\<lparr>pending_registrations := Some \<lparr>rows =
        [staged 1 ''chen'' ''staff'' None ''pending'',
         decide ''rejected'' 7 (Some ''once more'') ''2024-03-01 10:00:00''
           (staged 2 ''diaz'' ''staff'' None ''rejected''),
         staged 3 ''eze'' ''doctor'' (Some ''MD-1'') ''pending'',
         staged 4 ''faro'' ''doctor'' (Some ''MD-2'') ''pending''], seq = 4\<rparr>\<rparr>)"
  by (simp add: rejectPendingRegistration_def catch_false_def update_pending_status_def
      review_store_def sample_user_def sample_doctor_def staged_def decide_def)

text \<open>
  Claim C4, amended. Whatever the notes (the empty string included) and whatever the
  status of the row, reject returns true and records on every staged row of that id the
  status 'rejected', the reviewer, the notes as given and the time; the other rows and the
  tables of users, doctors and profiles are as before, so no user is created. When no row
  has the id, the store is unchanged and the result is still true. Only a missing table
  makes it return false.
\<close>

theorem reject_effect:
  "(pending_registrations d = Some prt \<longrightarrow>
      rejectPendingRegistration d now pendingId adminUserId adminNotes =
        (True, d\<lparr>pending_registrations := Some (prt\<lparr>rows :=
           map (\<lambda>r. if pr_id r = Some pendingId
                     then decide ''rejected'' adminUserId (Some adminNotes) now r else r)
             (rows prt)\<rparr>)\<rparr>))
   \<and> (pending_registrations d = Some prt
        \<and> find (\<lambda>r. pr_id r = Some pendingId) (rows prt) = None \<longrightarrow>
      rejectPendingRegistration d now pendingId adminUserId adminNotes = (True, d))
   \<and> (pending_registrations d = None \<longrightarrow>
      rejectPendingRegistration d now pendingId adminUserId adminNotes = (False, d))
   \<and> users (snd (rejectPendingRegistration d now pendingId adminUserId adminNotes)) = users d
   \<and> doctors (snd (rejectPendingRegistration d now pendingId adminUserId adminNotes)) = doctors d
   \<and> customers (snd (rejectPendingRegistration d now pendingId adminUserId adminNotes)) = customers d
   \<and> patients (snd (rejectPendingRegistration d now pendingId adminUserId adminNotes)) = patients d"
proof -
  have 1: "rejectPendingRegistration d now pendingId adminUserId adminNotes =
        (True, d\<lparr>pending_registrations := Some (prt\<lparr>rows :=
           map (\<lambda>r. if pr_id r = Some pendingId
                     then decide ''rejected'' adminUserId (Some adminNotes) now r else r)
             (rows prt)\<rparr>)\<rparr>)"
    if "pending_registrations d = Some prt"
    using that
    by (simp add: rejectPendingRegistration_def catch_false_def update_pending_status_Inr)
  have 2: "rejectPendingRegistration d now pendingId adminUserId adminNotes = (True, d)"
    if "pending_registrations d = Some prt"
      and "find (\<lambda>r. pr_id r = Some pendingId) (rows prt) = None"
  proof -
    have "d\<lparr>pending_registrations := Some (prt\<lparr>rows := rows prt\<rparr>)\<rparr> = d"
      using that(1) by simp
    then show ?thesis
      using 1 [OF that(1)] by (simp add: map_decide_absent [OF that(2)])
  qed
  have 3: "rejectPendingRegistration d now pendingId adminUserId adminNotes = (False, d)"
    if "pending_registrations d = None"
    using that
    by (simp add: rejectPendingRegistration_def catch_false_def update_pending_status_def)
  have 4: "users (snd (rejectPendingRegistration d now pendingId adminUserId adminNotes)) = users d
     \<and> doctors (snd (rejectPendingRegistration d now pendingId adminUserId adminNotes)) = doctors d
     \<and> customers (snd (rejectPendingRegistration d now pendingId adminUserId adminNotes)) = customers d
     \<and> patients (snd (rejectPendingRegistration d now pendingId adminUserId adminNotes)) = patients d"
    by (cases "pending_registrations d")
       (simp_all add: rejectPendingRegistration_def catch_false_def update_pending_status_def)
  from 1 2 3 4 show ?thesis by blast
qed

theorem reject_effect_witness:
  "rejectPendingRegistration review_store ''2024-03-01 10:00:00'' 1 1 ''license not verified'' =
     (True, review_store\<lparr>pending_registrations := Some \<lparr>rows =
        [decide ''rejected'' 1 (Some ''license not verified'') ''2024-03-01 10:00:00''
           (staged 1 ''chen'' ''staff'' None ''pending''),
         staged 2 ''diaz'' ''staff'' None ''rejected'',
         staged 3 ''eze'' ''doctor'' (Some ''MD-1'') ''pending'',
         staged 4 ''faro'' ''doctor'' (Some ''MD-2'') ''pending''], seq = 4\<rparr>\<rparr>)
   \<and> rejectPendingRegistration (review_store\<lparr>pending_registrations := None\<rparr>)
        ''2024-03-01 10:00:00'' 1 1 ''license not verified'' =
     (False, review_store\<lparr>pending_registrations := None\<rparr>)
   \<and> users (snd (rejectPendingRegistration review_store ''2024-03-01 10:00:00'' 1 1
        ''license not verified'')) = users review_store"
proof -
  have a: "pending_registrations review_store = Some
      \<lparr>rows = [staged 1 ''chen'' ''staff'' None ''pending'',
         staged 2 ''diaz'' ''staff'' None ''rejected'',
         staged 3 ''eze'' ''doctor'' (Some ''MD-1'') ''pending'',
         staged 4 ''faro'' ''doctor'' (Some ''MD-2'') ''pending''], seq = 4\<rparr>"
    by (simp add: review_store_def)
  have 1: "rejectPendingRegistration review_store ''2024-03-01 10:00:00'' 1 1 ''license not verified'' =
     (True, review_store\<lparr>pending_registrations := Some \<lparr>rows =
        [decide ''rejected'' 1 (Some ''license not verified'') ''2024-03-01 10:00:00''
           (staged 1 ''chen'' ''staff'' None ''pending''),
         staged 2 ''diaz'' ''staff'' None ''rejected'',
         staged 3 ''eze'' ''doctor'' (Some ''MD-1'') ''pending'',
         staged 4 ''faro'' ''doctor'' (Some ''MD-2'') ''pending''], seq = 4\<rparr>\<rparr>)"
    using reject_effect [THEN conjunct1, THEN mp, OF a,
        of "''2024-03-01 10:00:00''" 1 1 "''license not verified''"]
    by (simp add: staged_def)
  have 2: "rejectPendingRegistration (review_store\<lparr>pending_registrations := None\<rparr>)
        ''2024-03-01 10:00:00'' 1 1 ''license not verified'' =
     (False, review_store\<lparr>pending_registrations := None\<rparr>)"
    by (rule reject_effect [THEN conjunct2, THEN conjunct2, THEN conjunct1, THEN mp]) simp
  have 3: "users (snd (rejectPendingRegistration review_store ''2024-03-01 10:00:00'' 1 1
        ''license not verified'')) = users review_store"
    by (rule reject_effect [THEN conjunct2, THEN conjunct2, THEN conjunct2, THEN conjunct1])
  from 1 2 3 show ?thesis by blast
qed

text \<open>
  Claim C5, as stated: submit fails with DuplicateEmail when the email belongs to an
  existing user or to a pending registration. \<^verbatim>\<open>createPendingRegistration\<close> reads no
  user: the email of the admin of the sample store is no staged row's, and submitting a
  candidate under it returns the new id 5 and stages the row.
\<close>

theorem submit_user_email_counterexample:
  "getUserByEmail review_store ''root@clinic.test'' = Some (sample_user 1 ''root'' ''admin'')
   \<and> createPendingRegistration sample_hash review_store ''2024-03-01 10:00:00''
        (candidate ''newroot'' ''root@clinic.test'' ''staff'') =
     (Inr 5, review_store\<lparr>pending_registrations := Some \<lparr>rows =
        [staged 1 ''chen'' ''staff'' None ''pending'',
         staged 2 ''diaz'' ''staff'' None ''rejected'',
         staged 3 ''eze'' ''doctor'' (Some ''MD-1'') ''pending'',
         staged 4 ''faro'' ''doctor'' (Some ''MD-2'') ''pending'',
         staged_row sample_hash (candidate ''newroot'' ''root@clinic.test'' ''staff'') 5
           ''2024-03-01 10:00:00''], seq = 5\<rparr>\<rparr>)"
  by (simp add: createPendingRegistration_def getUserByEmail_def next_rowid_def
      review_store_def sample_user_def sample_doctor_def staged_def staged_row_def
      candidate_def Let_def)

text \<open>
  Claim C5, amended. \<^verbatim>\<open>createPendingRegistration\<close> fails, with the uniqueness error of
  the table of staged registrations and without changing the store, whenever the email is
  that of a staged row of any status; otherwise it appends exactly one row, with status
  'pending', the hashed password and a new id, and returns that id. Its result does not
  depend on the users table.
\<close>

theorem submit_unique_among_staged:
  assumes "pending_registrations d = Some prt"
  shows "(pr_email reg \<in> set (map pr_email (rows prt)) \<longrightarrow>
            createPendingRegistration hash d now reg =
              (Inl (UniqueConstraint ''pending_registrations''), d))
       \<and> (pr_email reg \<notin> set (map pr_email (rows prt)) \<longrightarrow>
            createPendingRegistration hash d now reg =
              (Inr (next_rowid (map pr_id (rows prt)) (seq prt)),
               d\<lparr>pending_registrations := Some \<lparr>rows = rows prt @
                   [staged_row hash reg (next_rowid (map pr_id (rows prt)) (seq prt)) now],
                   seq = next_rowid (map pr_id (rows prt)) (seq prt)\<rparr>\<rparr>))
       \<and> pr_status (staged_row hash reg i now) = Some ''pending''
       \<and> pr_password (staged_row hash reg i now) = hash (pr_password reg)
       \<and> pr_email (staged_row hash reg i now) = pr_email reg
       \<and> pr_id (staged_row hash reg i now) = Some i
       \<and> Some (next_rowid (map pr_id (rows prt)) (seq prt)) \<notin> set (map pr_id (rows prt))
       \<and> fst (createPendingRegistration hash (d\<lparr>users := us\<rparr>) now reg)
           = fst (createPendingRegistration hash d now reg)"
proof -
  have "fst (createPendingRegistration hash (d\<lparr>users := us\<rparr>) now reg)
           = fst (createPendingRegistration hash d now reg)"
    using assms by (simp add: createPendingRegistration_def Let_def)
  moreover have "Some (next_rowid (map pr_id (rows prt)) (seq prt)) \<notin> set (map pr_id (rows prt))"
    by (rule next_rowid_fresh)
  moreover have "pr_status (staged_row hash reg i now) = Some ''pending''"
    "pr_password (staged_row hash reg i now) = hash (pr_password reg)"
    "pr_email (staged_row hash reg i now) = pr_email reg"
    "pr_id (staged_row hash reg i now) = Some i"
    by (simp_all add: staged_row_def)
  ultimately show ?thesis
    using submit_Inl [OF assms, of reg hash now] submit_Inr [OF assms, of reg hash now]
    by blast
qed

theorem submit_unique_among_staged_witness:
  "createPendingRegistration sample_hash review_store ''2024-03-01 10:00:00''
        (candidate ''diaz2'' ''diaz@clinic.test'' ''staff'') =
     (Inl (UniqueConstraint ''pending_registrations''), review_store)
   \<and> fst (createPendingRegistration sample_hash review_store ''2024-03-01 10:00:00''
        (candidate ''gil'' ''gil@clinic.test'' ''doctor'')) = Inr 5"
proof -
  have a: "pending_registrations review_store = Some
      \<lparr>rows = [staged 1 ''chen'' ''staff'' None ''pending'',
         staged 2 ''diaz'' ''staff'' None ''rejected'',
         staged 3 ''eze'' ''doctor'' (Some ''MD-1'') ''pending'',
         staged 4 ''faro'' ''doctor'' (Some ''MD-2'') ''pending''], seq = 4\<rparr>"
    by (simp add: review_store_def)
  have 1: "createPendingRegistration sample_hash review_store ''2024-03-01 10:00:00''
        (candidate ''diaz2'' ''diaz@clinic.test'' ''staff'') =
     (Inl (UniqueConstraint ''pending_registrations''), review_store)"
    by (rule submit_unique_among_staged [OF a, THEN conjunct1, THEN mp])
       (simp add: staged_def candidate_def)
  have "pr_email (candidate ''gil'' ''gil@clinic.test'' ''doctor'') \<notin> set (map pr_email
      (rows \<lparr>rows = [staged 1 ''chen'' ''staff'' None ''pending'',
         staged 2 ''diaz'' ''staff'' None ''rejected'',
         staged 3 ''eze'' ''doctor'' (Some ''MD-1'') ''pending'',
         staged 4 ''faro'' ''doctor'' (Some ''MD-2'') ''pending''], seq = 4\<rparr>))"
    by (simp add: staged_def candidate_def)
  from submit_unique_among_staged [OF a, THEN conjunct2, THEN conjunct1, THEN mp, OF this]
  have 2: "fst (createPendingRegistration sample_hash review_store ''2024-03-01 10:00:00''
        (candidate ''gil'' ''gil@clinic.test'' ''doctor'')) = Inr 5"
    by (simp add: next_rowid_def staged_def)
  from 1 2 show ?thesis by (rule conjI)
qed

text \<open>
  Claim C6, as stated: every valid submission with a unique email gives, after submit and
  approve, exactly one new user. Neither function looks at the username before the user
  insert, which the users table refuses for a username it already holds. A candidate of
  the sample store with an email nobody has and the username of the doctor is staged by
  submit under the id 5; approve on 5 then throws the uniqueness error of the users table
  and the users are as before.
\<close>

theorem submit_taken_username_counterexample:
  "pr_email (candidate ''bose'' ''bose2@clinic.test'' ''staff'')
      \<notin> set (map u_email (user_rows review_store))
   \<and> pr_email (candidate ''bose'' ''bose2@clinic.test'' ''staff'')
      \<notin> set (map pr_email (pending_rows review_store))
   \<and> fst (createPendingRegistration sample_hash review_store ''2024-03-01 10:00:00''
        (candidate ''bose'' ''bose2@clinic.test'' ''staff'')) = Inr 5
   \<and> approvePendingRegistration
        (snd (createPendingRegistration sample_hash review_store ''2024-03-01 10:00:00''
           (candidate ''bose'' ''bose2@clinic.test'' ''staff'')))
        ''2024-03-02 10:00:00'' 5 1 None
      = (Inl (UniqueConstraint ''users''),
         snd (createPendingRegistration sample_hash review_store ''2024-03-01 10:00:00''
           (candidate ''bose'' ''bose2@clinic.test'' ''staff'')))
   \<and> user_rows
        (snd (createPendingRegistration sample_hash review_store ''2024-03-01 10:00:00''
           (candidate ''bose'' ''bose2@clinic.test'' ''staff'')))
      = user_rows review_store"
  by (simp add: createPendingRegistration_def approvePendingRegistration_def
      select_pending_def insert_user_def next_rowid_def or_null_def or_null_num_def
      review_store_def sample_user_def sample_doctor_def staged_def candidate_def
      sample_hash_def user_rows_def pending_rows_def Let_def)

text \<open>
  Claim C6, amended. Take a store with the users and pending tables, both below the
  largest rowid, and a candidate of role doctor or staff whose email no user and no
  staged row has and whose username no user has. Then submit returns a new id, and approve
  on that id, whoever reviews and whenever, leaves the users table with exactly one more
  row. That row has the submitted role, username and email, and its password is the hash
  of the submitted plaintext, computed once by submit and copied by approve, whatever the
  hash function. Approve returns true for staff, and for a doctor when the doctors table
  is below the largest rowid and has no row of the candidate's license number.
\<close>

theorem submit_then_approve:
  assumes ut: "users d = Some ut" and prt: "pending_registrations d = Some prt"
    and em_p: "pr_email reg \<notin> set (map pr_email (rows prt))"
    and em_u: "pr_email reg \<notin> set (map u_email (rows ut))"
    and un_u: "pr_username reg \<notin> set (map u_username (rows ut))"
    and role: "pr_role reg = ''doctor'' \<or> pr_role reg = ''staff''"
    and room_u: "rowid_available (map u_id (rows ut)) (seq ut)"
    and room_p: "rowid_available (map pr_id (rows prt)) (seq prt)"
  shows "\<exists>pendingId d1 u.
           createPendingRegistration hash d now reg = (Inr pendingId, d1)
         \<and> user_rows (snd (approvePendingRegistration d1 now2 pendingId adminUserId adminNotes))
             = user_rows d @ [u]
         \<and> u_role u = pr_role reg
         \<and> u_password u = hash (pr_password reg)
         \<and> u_username u = pr_username reg
         \<and> u_email u = pr_email reg
         \<and> (pr_role reg = ''staff'' \<longrightarrow>
              fst (approvePendingRegistration d1 now2 pendingId adminUserId adminNotes) = Inr True)
         \<and> (\<forall>dt. doctors d = Some dt
                \<and> rowid_available (map d_id (rows dt)) (seq dt)
                \<and> (or_null (pr_license_number reg) = None
                    \<or> or_null (pr_license_number reg) \<notin> set (map d_license_number (rows dt)))
              \<longrightarrow> fst (approvePendingRegistration d1 now2 pendingId adminUserId adminNotes)
                    = Inr True)"
proof -
  let ?pid = "next_rowid (map pr_id (rows prt)) (seq prt)"
  define row where "row = staged_row hash reg ?pid now"
  have sub: "createPendingRegistration hash d now reg =
            (Inr ?pid, d\<lparr>pending_registrations := Some \<lparr>rows = rows prt @ [row], seq = ?pid\<rparr>\<rparr>)"
    unfolding row_def by (rule submit_Inr [OF prt em_p])
  have row: "pr_id row = Some ?pid" "pr_username row = pr_username reg"
      "pr_email row = pr_email reg" "pr_password row = hash (pr_password reg)"
      "pr_role row = pr_role reg"
      "pr_license_number row = or_null (pr_license_number reg)"
    by (simp_all add: row_def staged_row_def)
  let ?d1 = "d\<lparr>pending_registrations := Some \<lparr>rows = rows prt @ [row], seq = ?pid\<rparr>\<rparr>"
  have "find (\<lambda>r. pr_id r = Some ?pid) (rows prt) = None"
    by (rule find_fresh_id) (rule next_rowid_fresh)
  then have sel: "select_pending ?pid ?d1 = Inr (Some row)"
    using row(1) by (simp add: select_pending_def find_append_none)
  let ?i = "next_rowid (map u_id (rows ut)) (seq ut)"
  let ?u = "user_of_registration row ?i now2"
  have ins: "insert_user (pr_username row) (pr_email row) (pr_password row) (pr_role row)
           (pr_full_name row) (or_null (pr_phone row)) now2 ?d1
       = Inr (?i, ?d1\<lparr>users := Some \<lparr>rows = rows ut @ [?u], seq = ?i\<rparr>\<rparr>)"
    using ut em_u un_u role row
    by (auto simp: insert_user_def Let_def user_of_registration_def)
  have "users (snd (approvePendingRegistration ?d1 now2 ?pid adminUserId adminNotes))
          = Some \<lparr>rows = rows ut @ [?u], seq = ?i\<rparr>"
    using approve_users_after_insert [OF sel ins] by simp
  then have us: "user_rows (snd (approvePendingRegistration ?d1 now2 ?pid adminUserId adminNotes))
          = user_rows d @ [?u]"
    using ut by (simp add: user_rows_def)
  have staff: "fst (approvePendingRegistration ?d1 now2 ?pid adminUserId adminNotes) = Inr True"
    if "pr_role reg = ''staff''"
    by (rule approve_returns_true [OF sel ins]) (simp add: row that)
  have doc: "fst (approvePendingRegistration ?d1 now2 ?pid adminUserId adminNotes) = Inr True"
    if "doctors d = Some dt"
      and "or_null (pr_license_number reg) = None
           \<or> or_null (pr_license_number reg) \<notin> set (map d_license_number (rows dt))" for dt
    by (rule approve_returns_true [OF sel ins]) (use that in \<open>simp add: row or_null_idem\<close>)
  have fields: "u_role ?u = pr_role reg" "u_password ?u = hash (pr_password reg)"
     "u_username ?u = pr_username reg" "u_email ?u = pr_email reg"
    using row by (simp_all add: user_of_registration_def)
  show ?thesis
    apply (rule exI [of _ ?pid])
    apply (rule exI [of _ ?d1])
    apply (rule exI [of _ ?u])
    using sub us fields staff doc by blast
qed

theorem submit_then_approve_witness:
  "\<exists>pendingId d1 u.
      createPendingRegistration sample_hash review_store ''2024-03-01 10:00:00''
          (candidate ''gil'' ''gil@clinic.test'' ''doctor'') = (Inr pendingId, d1)
    \<and> user_rows (snd (approvePendingRegistration d1 ''2024-03-02 10:00:00'' pendingId 1 None))
        = user_rows review_store @ [u]
    \<and> u_role u = pr_role (candidate ''gil'' ''gil@clinic.test'' ''doctor'')
    \<and> u_password u = sample_hash (pr_password (candidate ''gil'' ''gil@clinic.test'' ''doctor''))
    \<and> u_username u = pr_username (candidate ''gil'' ''gil@clinic.test'' ''doctor'')
    \<and> u_email u = pr_email (candidate ''gil'' ''gil@clinic.test'' ''doctor'')
    \<and> (pr_role (candidate ''gil'' ''gil@clinic.test'' ''doctor'') = ''staff'' \<longrightarrow>
         fst (approvePendingRegistration d1 ''2024-03-02 10:00:00'' pendingId 1 None) = Inr True)
    \<and> (\<forall>dt. doctors review_store = Some dt
           \<and> rowid_available (map d_id (rows dt)) (seq dt)
           \<and> (or_null (pr_license_number (candidate ''gil'' ''gil@clinic.test'' ''doctor'')) = None
               \<or> or_null (pr_license_number (candidate ''gil'' ''gil@clinic.test'' ''doctor''))
                   \<notin> set (map d_license_number (rows dt)))
         \<longrightarrow> fst (approvePendingRegistration d1 ''2024-03-02 10:00:00'' pendingId 1 None)
               = Inr True)"
proof (rule submit_then_approve)
  show "users review_store = Some
      \<lparr>rows = [sample_user 1 ''root'' ''admin'', sample_user 2 ''bose'' ''doctor''], seq = 2\<rparr>"
    by (simp add: review_store_def)
  show "pending_registrations review_store = Some
      \<lparr>rows = [staged 1 ''chen'' ''staff'' None ''pending'',
         staged 2 ''diaz'' ''staff'' None ''rejected'',
         staged 3 ''eze'' ''doctor'' (Some ''MD-1'') ''pending'',
         staged 4 ''faro'' ''doctor'' (Some ''MD-2'') ''pending''], seq = 4\<rparr>"
    by (simp add: review_store_def)
qed (simp_all add: candidate_def staged_def sample_user_def rowid_available_def next_rowid_def)

section \<open>Properties of the patient directory filter\<close>

text \<open>
  Claim C7, as stated: a record whose date of birth is 18 years and 1 day before today is
  classified into the bracket 19-30. With today 15 June 2024 and a patient born 14 June
  2006, \<^verbatim>\<open>calculateAge\<close> gives 18, an age the case 19-30 of the switch turns away; and
  the filter does not classify the patient at all: for a patient with a date of birth
  the callback throws, since it calls \<^verbatim>\<open>calculateAge\<close> before the declaration has run,
  and without a global \<^verbatim>\<open>patients\<close> the statement throws before the callback is called.
\<close>

theorem age_bracket_counterexample:
  "calculateAge sample_js sample_now (Some ''2006-06-14'') = Num 18
   \<and> \<not> ageRange_ok ''19-30'' (Num 18)
   \<and> filter_age (sample_customer 1 ''asha'' (Some ''2006-06-14'') ''2024-06-08 12:00:00'')
       = Inl (ReferenceError ''calculateAge'')
   \<and> patient_callback sample_js sample_now [] (no_filters\<lparr>ageRange := ''19-30''\<rparr>)
        (sample_customer 1 ''asha'' (Some ''2006-06-14'') ''2024-06-08 12:00:00'')
       = Inl (ReferenceError ''calculateAge'')
   \<and> \<not> patient_filter sample_js sample_now [] (no_filters\<lparr>ageRange := ''19-30''\<rparr>)
        (sample_customer 1 ''asha'' (Some ''2006-06-14'') ''2024-06-08 12:00:00'')
   \<and> filteredPatients sample_js sample_now [] (no_filters\<lparr>ageRange := ''19-30''\<rparr>) None
       = Inl (ReferenceError ''patients'')"
  by (simp add: filteredPatients_def patient_filter_def patient_callback_def ageRange_ok_def
      filter_age_def calculateAge_def truthy_def sample_js_def sample_now_def
      sample_customer_def sample_dates_def no_filters_def includes_str_empty Let_def)

text \<open>
  Claim C7, amended. \<^verbatim>\<open>calculateAge\<close> counts whole calendar years: the difference of the
  years, less one when today's month and day precede the month and day of birth. For a
  date of birth exactly 18 years before today it gives 18, and for one 18 years and 1 day
  before today (the day before in the same month, or in an earlier month of that year, or
  late in the year before when today is early in the year) it gives 18 as well, not 19.
  The switch keeps an age for 0-18 when it is at most 18, for 19-30 when it is 19 to 30,
  for 31-50 when it is 31 to 50 and for 51+ when it is at least 51, so the age 18 belongs
  to 0-18 and not to 19-30. In the filter a missing date of birth gives the age 0.
\<close>

theorem age_bracket_whole_years:
  "(dob = Some s \<and> s \<noteq> [] \<and> newDate env s = Some birth \<longrightarrow>
      calculateAge env today dob =
        Num (getFullYear today - getFullYear birth
             - (if getMonth today < getMonth birth
                   \<or> (getMonth today = getMonth birth \<and> getDate today < getDate birth)
                then 1 else 0)))
   \<and> (dob = Some s \<and> s \<noteq> [] \<and> newDate env s = Some birth
       \<and> getFullYear birth = getFullYear today - 18
       \<and> getMonth birth = getMonth today \<and> getDate birth = getDate today \<longrightarrow>
      calculateAge env today dob = Num 18)
   \<and> (dob = Some s \<and> s \<noteq> [] \<and> newDate env s = Some birth
       \<and> getFullYear birth = getFullYear today - 18
       \<and> (getMonth birth < getMonth today
           \<or> (getMonth birth = getMonth today \<and> getDate birth < getDate today)) \<longrightarrow>
      calculateAge env today dob = Num 18)
   \<and> (dob = Some s \<and> s \<noteq> [] \<and> newDate env s = Some birth
       \<and> getFullYear birth = getFullYear today - 19
       \<and> (getMonth today < getMonth birth
           \<or> (getMonth today = getMonth birth \<and> getDate today < getDate birth)) \<longrightarrow>
      calculateAge env today dob = Num 18)
   \<and> (c_date_of_birth patient = None \<or> c_date_of_birth patient = Some [] \<longrightarrow>
      filter_age patient = Inr (Num 0))
   \<and> (ageRange_ok ''0-18'' (Num a) \<longleftrightarrow> a \<le> 18)
   \<and> (ageRange_ok ''19-30'' (Num a) \<longleftrightarrow> 19 \<le> a \<and> a \<le> 30)
   \<and> (ageRange_ok ''31-50'' (Num a) \<longleftrightarrow> 31 \<le> a \<and> a \<le> 50)
   \<and> (ageRange_ok ''51+'' (Num a) \<longleftrightarrow> 51 \<le> a)"
proof -
  have missing: "filter_age patient = Inr (Num 0)"
    if "c_date_of_birth patient = None \<or> c_date_of_birth patient = Some []"
    using that by (auto simp: filter_age_def truthy_def)
  have age: "calculateAge env today dob =
        Num (getFullYear today - getFullYear birth
             - (if getMonth today < getMonth birth
                   \<or> (getMonth today = getMonth birth \<and> getDate today < getDate birth)
                then 1 else 0))"
    if "dob = Some s \<and> s \<noteq> [] \<and> newDate env s = Some birth"
    using that calculateAge_parsed [of dob s env birth today] by blast
  have exact: "calculateAge env today dob = Num 18"
    if "dob = Some s \<and> s \<noteq> [] \<and> newDate env s = Some birth
       \<and> getFullYear birth = getFullYear today - 18
       \<and> getMonth birth = getMonth today \<and> getDate birth = getDate today"
  proof -
    from that have p: "dob = Some s" "s \<noteq> []" "newDate env s = Some birth"
      and y: "getFullYear birth = getFullYear today - 18"
      and m: "getMonth birth = getMonth today" "getDate birth = getDate today"
      by simp_all
    show ?thesis unfolding calculateAge_parsed [OF p] using y m by simp
  qed
  have later: "calculateAge env today dob = Num 18"
    if "dob = Some s \<and> s \<noteq> [] \<and> newDate env s = Some birth
       \<and> getFullYear birth = getFullYear today - 18
       \<and> (getMonth birth < getMonth today
           \<or> (getMonth birth = getMonth today \<and> getDate birth < getDate today))"
  proof -
    from that have p: "dob = Some s" "s \<noteq> []" "newDate env s = Some birth"
      and y: "getFullYear birth = getFullYear today - 18"
      and m: "getMonth birth < getMonth today
           \<or> (getMonth birth = getMonth today \<and> getDate birth < getDate today)"
      by simp_all
    from m have "\<not> (getMonth today < getMonth birth
                   \<or> (getMonth today = getMonth birth \<and> getDate today < getDate birth))"
      by linarith
    then show ?thesis unfolding calculateAge_parsed [OF p] using y by simp
  qed
  have turn: "calculateAge env today dob = Num 18"
    if "dob = Some s \<and> s \<noteq> [] \<and> newDate env s = Some birth
       \<and> getFullYear birth = getFullYear today - 19
       \<and> (getMonth today < getMonth birth
           \<or> (getMonth today = getMonth birth \<and> getDate today < getDate birth))"
  proof -
    from that have p: "dob = Some s" "s \<noteq> []" "newDate env s = Some birth"
      and y: "getFullYear birth = getFullYear today - 19"
      and m: "getMonth today < getMonth birth
           \<or> (getMonth today = getMonth birth \<and> getDate today < getDate birth)"
      by simp_all
    show ?thesis unfolding calculateAge_parsed [OF p] using y m by simp
  qed
  have c1: "dob = Some s \<and> s \<noteq> [] \<and> newDate env s = Some birth \<longrightarrow>
      calculateAge env today dob =
        Num (getFullYear today - getFullYear birth
             - (if getMonth today < getMonth birth
                   \<or> (getMonth today = getMonth birth \<and> getDate today < getDate birth)
                then 1 else 0))"
    using age by (rule impI)
  have c2: "dob = Some s \<and> s \<noteq> [] \<and> newDate env s = Some birth
       \<and> getFullYear birth = getFullYear today - 18
       \<and> getMonth birth = getMonth today \<and> getDate birth = getDate today \<longrightarrow>
      calculateAge env today dob = Num 18"
    using exact by (rule impI)
  have c3: "dob = Some s \<and> s \<noteq> [] \<and> newDate env s = Some birth
       \<and> getFullYear birth = getFullYear today - 18
       \<and> (getMonth birth < getMonth today
           \<or> (getMonth birth = getMonth today \<and> getDate birth < getDate today)) \<longrightarrow>
      calculateAge env today dob = Num 18"
    using later by (rule impI)
  have c4: "dob = Some s \<and> s \<noteq> [] \<and> newDate env s = Some birth
       \<and> getFullYear birth = getFullYear today - 19
       \<and> (getMonth today < getMonth birth
           \<or> (getMonth today = getMonth birth \<and> getDate today < getDate birth)) \<longrightarrow>
      calculateAge env today dob = Num 18"
    using turn by (rule impI)
  have c5: "c_date_of_birth patient = None \<or> c_date_of_birth patient = Some [] \<longrightarrow>
      filter_age patient = Inr (Num 0)"
    using missing by (rule impI)
  from c1 c2 c3 c4 c5 ageRange_ok_Num [of a] show ?thesis
    by (intro conjI)
qed

theorem age_bracket_whole_years_witness:
  "calculateAge sample_js sample_now (Some ''2006-06-15'') = Num 18
   \<and> calculateAge sample_js sample_now (Some ''2006-06-14'') = Num 18
   \<and> filter_age (sample_customer 3 ''caro'' None ''2024-06-08 12:00:00'') = Inr (Num 0)
   \<and> ageRange_ok ''0-18'' (Num 18)
   \<and> \<not> ageRange_ok ''19-30'' (Num 18)"
proof -
  have p2: "Some ''2006-06-15'' = Some ''2006-06-15'' \<and> ''2006-06-15'' \<noteq> []
      \<and> newDate sample_js ''2006-06-15''
          = Some \<lparr>getTime = 1150329600000, getFullYear = 2006, getMonth = 5, getDate = 15\<rparr>
      \<and> getFullYear \<lparr>getTime = 1150329600000, getFullYear = 2006, getMonth = 5, getDate = 15\<rparr>
          = getFullYear sample_now - 18
      \<and> getMonth \<lparr>getTime = 1150329600000, getFullYear = 2006, getMonth = 5, getDate = 15\<rparr>
          = getMonth sample_now
      \<and> getDate \<lparr>getTime = 1150329600000, getFullYear = 2006, getMonth = 5, getDate = 15\<rparr>
          = getDate sample_now"
    by (simp add: sample_js_def sample_dates_def sample_now_def)
  have p1: "Some ''2006-06-14'' = Some ''2006-06-14'' \<and> ''2006-06-14'' \<noteq> []
      \<and> newDate sample_js ''2006-06-14''
          = Some \<lparr>getTime = 1150243200000, getFullYear = 2006, getMonth = 5, getDate = 14\<rparr>
      \<and> getFullYear \<lparr>getTime = 1150243200000, getFullYear = 2006, getMonth = 5, getDate = 14\<rparr>
          = getFullYear sample_now - 18
      \<and> (getMonth \<lparr>getTime = 1150243200000, getFullYear = 2006, getMonth = 5, getDate = 14\<rparr>
            < getMonth sample_now
          \<or> (getMonth \<lparr>getTime = 1150243200000, getFullYear = 2006, getMonth = 5, getDate = 14\<rparr>
                = getMonth sample_now
              \<and> getDate \<lparr>getTime = 1150243200000, getFullYear = 2006, getMonth = 5, getDate = 14\<rparr>
                < getDate sample_now))"
    by (simp add: sample_js_def sample_dates_def sample_now_def)
  have p3: "c_date_of_birth (sample_customer 3 ''caro'' None ''2024-06-08 12:00:00'') = None
      \<or> c_date_of_birth (sample_customer 3 ''caro'' None ''2024-06-08 12:00:00'') = Some []"
    by (simp add: sample_customer_def)
  note t = age_bracket_whole_years
  have b: "ageRange_ok ''0-18'' (Num 18)" "\<not> ageRange_ok ''19-30'' (Num 18)"
    using t [of _ _ _ _ _ _ 18, THEN conjunct2, THEN conjunct2, THEN conjunct2,
        THEN conjunct2, THEN conjunct2] by simp_all
  from t [THEN conjunct2, THEN conjunct1, THEN mp, OF p2]
    t [THEN conjunct2, THEN conjunct2, THEN conjunct1, THEN mp, OF p1]
    t [THEN conjunct2, THEN conjunct2, THEN conjunct2, THEN conjunct2, THEN conjunct1, THEN mp, OF p3]
    b
  show ?thesis by blast
qed

text \<open>
  Claim C8. The registration period is the time between \<^verbatim>\<open>created_at\<close> and now, either
  way round, in days rounded up, and each bucket only bounds it from above: a bucket of
  \<open>n\<close> days matches exactly the records whose time distance is at most \<open>n\<close> days. So
  'last-week' matches a record created a whole number \<open>k\<close> of days ago exactly when
  \<open>k \<le> 7\<close> (0, 3 and 7 days match, 8 days do not), and whatever a smaller bucket matches
  every larger one matches too, in the switch and in the filter as a whole.
\<close>

theorem registration_buckets_upper_bound_only:
  "(newDate env (c_created_at patient) = Some created \<longrightarrow>
      diffDays env now patient =
        Some \<lceil>real_of_int \<bar>getTime now - getTime created\<bar> / (1000 * 60 * 60 * 24)\<rceil>
      \<and> (registrationPeriod_ok ''last-week'' (diffDays env now patient)
           \<longleftrightarrow> \<bar>getTime now - getTime created\<bar> \<le> 7 * 86400000)
      \<and> (registrationPeriod_ok ''last-month'' (diffDays env now patient)
           \<longleftrightarrow> \<bar>getTime now - getTime created\<bar> \<le> 30 * 86400000)
      \<and> (registrationPeriod_ok ''last-3-months'' (diffDays env now patient)
           \<longleftrightarrow> \<bar>getTime now - getTime created\<bar> \<le> 90 * 86400000)
      \<and> (registrationPeriod_ok ''last-year'' (diffDays env now patient)
           \<longleftrightarrow> \<bar>getTime now - getTime created\<bar> \<le> 365 * 86400000))
   \<and> (newDate env (c_created_at patient) = Some created \<and> 0 \<le> k
        \<and> getTime now - getTime created = k * 86400000 \<longrightarrow>
      diffDays env now patient = Some k
      \<and> (registrationPeriod_ok ''last-week'' (diffDays env now patient) \<longleftrightarrow> k \<le> 7))
   \<and> (registrationPeriod_ok ''last-week'' x \<longrightarrow> registrationPeriod_ok ''last-month'' x)
   \<and> (registrationPeriod_ok ''last-month'' x \<longrightarrow> registrationPeriod_ok ''last-3-months'' x)
   \<and> (registrationPeriod_ok ''last-3-months'' x \<longrightarrow> registrationPeriod_ok ''last-year'' x)
   \<and> (patient_filter env now searchTerm (filters\<lparr>registrationPeriod := ''last-week''\<rparr>) patient
        \<longrightarrow> patient_filter env now searchTerm (filters\<lparr>registrationPeriod := ''last-month''\<rparr>) patient)
   \<and> (patient_filter env now searchTerm (filters\<lparr>registrationPeriod := ''last-month''\<rparr>) patient
        \<longrightarrow> patient_filter env now searchTerm (filters\<lparr>registrationPeriod := ''last-3-months''\<rparr>) patient)
   \<and> (patient_filter env now searchTerm (filters\<lparr>registrationPeriod := ''last-3-months''\<rparr>) patient
        \<longrightarrow> patient_filter env now searchTerm (filters\<lparr>registrationPeriod := ''last-year''\<rparr>) patient)"
proof -
  have bounds: "diffDays env now patient =
        Some \<lceil>real_of_int \<bar>getTime now - getTime created\<bar> / (1000 * 60 * 60 * 24)\<rceil>
      \<and> (registrationPeriod_ok ''last-week'' (diffDays env now patient)
           \<longleftrightarrow> \<bar>getTime now - getTime created\<bar> \<le> 7 * 86400000)
      \<and> (registrationPeriod_ok ''last-month'' (diffDays env now patient)
           \<longleftrightarrow> \<bar>getTime now - getTime created\<bar> \<le> 30 * 86400000)
      \<and> (registrationPeriod_ok ''last-3-months'' (diffDays env now patient)
           \<longleftrightarrow> \<bar>getTime now - getTime created\<bar> \<le> 90 * 86400000)
      \<and> (registrationPeriod_ok ''last-year'' (diffDays env now patient)
           \<longleftrightarrow> \<bar>getTime now - getTime created\<bar> \<le> 365 * 86400000)"
    if p: "newDate env (c_created_at patient) = Some created"
    using diffDays_parsed [OF p, of now]
      registrationPeriod_ok_iff [OF p, of "''last-week''" now]
      registrationPeriod_ok_iff [OF p, of "''last-month''" now]
      registrationPeriod_ok_iff [OF p, of "''last-3-months''" now]
      registrationPeriod_ok_iff [OF p, of "''last-year''" now]
    by simp
  have whole: "diffDays env now patient = Some k
      \<and> (registrationPeriod_ok ''last-week'' (diffDays env now patient) \<longleftrightarrow> k \<le> 7)"
    if h: "newDate env (c_created_at patient) = Some created \<and> 0 \<le> k
        \<and> getTime now - getTime created = k * 86400000"
  proof -
    from h have p: "newDate env (c_created_at patient) = Some created" and k: "0 \<le> k"
      and eq: "getTime now - getTime created = k * 86400000" by simp_all
    have ab: "\<bar>getTime now - getTime created\<bar> = k * 86400000"
      using k eq by simp
    have "\<lceil>real_of_int (k * 86400000) / (1000 * 60 * 60 * 24)\<rceil> = k"
      by simp
    then have "diffDays env now patient = Some k"
      using diffDays_parsed [OF p, of now] ab by simp
    moreover have "registrationPeriod_ok ''last-week'' (diffDays env now patient) \<longleftrightarrow> k \<le> 7"
      using registrationPeriod_ok_iff [OF p, of "''last-week''" now] ab by simp
    ultimately show ?thesis by simp
  qed
  have f1: "patient_filter env now searchTerm (filters\<lparr>registrationPeriod := ''last-month''\<rparr>) patient"
    if "patient_filter env now searchTerm (filters\<lparr>registrationPeriod := ''last-week''\<rparr>) patient"
    by (rule patient_filter_period_mono [OF registrationPeriod_ok_mono(1) _ that]) simp_all
  have f2: "patient_filter env now searchTerm (filters\<lparr>registrationPeriod := ''last-3-months''\<rparr>) patient"
    if "patient_filter env now searchTerm (filters\<lparr>registrationPeriod := ''last-month''\<rparr>) patient"
    by (rule patient_filter_period_mono [OF registrationPeriod_ok_mono(2) _ that]) simp_all
  have f3: "patient_filter env now searchTerm (filters\<lparr>registrationPeriod := ''last-year''\<rparr>) patient"
    if "patient_filter env now searchTerm (filters\<lparr>registrationPeriod := ''last-3-months''\<rparr>) patient"
    by (rule patient_filter_period_mono [OF registrationPeriod_ok_mono(3) _ that]) simp_all
  show ?thesis
    using bounds whole registrationPeriod_ok_mono [of x] f1 f2 f3
    by (intro conjI impI) blast+
qed

theorem registration_buckets_upper_bound_only_witness:
  "registrationPeriod_ok ''last-week''
      (diffDays sample_js sample_now (sample_customer 1 ''asha'' None ''2024-06-15 12:00:00''))
   \<and> registrationPeriod_ok ''last-week''
      (diffDays sample_js sample_now (sample_customer 2 ''bina'' None ''2024-06-12 12:00:00''))
   \<and> registrationPeriod_ok ''last-week''
      (diffDays sample_js sample_now (sample_customer 3 ''caro'' None ''2024-06-08 12:00:00''))
   \<and> \<not> registrationPeriod_ok ''last-week''
      (diffDays sample_js sample_now (sample_customer 4 ''dana'' None ''2024-06-07 12:00:00''))
   \<and> registrationPeriod_ok ''last-month''
      (diffDays sample_js sample_now (sample_customer 1 ''asha'' None ''2024-06-15 12:00:00''))
   \<and> map (patient_filter sample_js sample_now [] (no_filters\<lparr>registrationPeriod := ''last-week''\<rparr>))
        [sample_customer 1 ''asha'' None ''2024-06-15 12:00:00'',
         sample_customer 2 ''bina'' None ''2024-06-12 12:00:00'',
         sample_customer 3 ''caro'' None ''2024-06-08 12:00:00'',
         sample_customer 4 ''dana'' None ''2024-06-07 12:00:00'']
      = [True, True, True, False]"
proof -
  note t = registration_buckets_upper_bound_only
  have h0: "newDate sample_js (c_created_at (sample_customer 1 ''asha'' None ''2024-06-15 12:00:00''))
        = Some \<lparr>getTime = 1718452800000, getFullYear = 2024, getMonth = 5, getDate = 15\<rparr>
      \<and> (0::int) \<le> 0
      \<and> getTime sample_now
          - getTime \<lparr>getTime = 1718452800000, getFullYear = 2024, getMonth = 5, getDate = 15\<rparr>
        = 0 * 86400000"
    by (simp add: sample_customer_def sample_js_def sample_dates_def sample_now_def)
  have h3: "newDate sample_js (c_created_at (sample_customer 2 ''bina'' None ''2024-06-12 12:00:00''))
        = Some \<lparr>getTime = 1718193600000, getFullYear = 2024, getMonth = 5, getDate = 12\<rparr>
      \<and> (0::int) \<le> 3
      \<and> getTime sample_now
          - getTime \<lparr>getTime = 1718193600000, getFullYear = 2024, getMonth = 5, getDate = 12\<rparr>
        = 3 * 86400000"
    by (simp add: sample_customer_def sample_js_def sample_dates_def sample_now_def)
  have h7: "newDate sample_js (c_created_at (sample_customer 3 ''caro'' None ''2024-06-08 12:00:00''))
        = Some \<lparr>getTime = 1717848000000, getFullYear = 2024, getMonth = 5, getDate = 8\<rparr>
      \<and> (0::int) \<le> 7
      \<and> getTime sample_now
          - getTime \<lparr>getTime = 1717848000000, getFullYear = 2024, getMonth = 5, getDate = 8\<rparr>
        = 7 * 86400000"
    by (simp add: sample_customer_def sample_js_def sample_dates_def sample_now_def)
  have h8: "newDate sample_js (c_created_at (sample_customer 4 ''dana'' None ''2024-06-07 12:00:00''))
        = Some \<lparr>getTime = 1717761600000, getFullYear = 2024, getMonth = 5, getDate = 7\<rparr>
      \<and> (0::int) \<le> 8
      \<and> getTime sample_now
          - getTime \<lparr>getTime = 1717761600000, getFullYear = 2024, getMonth = 5, getDate = 7\<rparr>
        = 8 * 86400000"
    by (simp add: sample_customer_def sample_js_def sample_dates_def sample_now_def)
  have w0: "registrationPeriod_ok ''last-week''
      (diffDays sample_js sample_now (sample_customer 1 ''asha'' None ''2024-06-15 12:00:00''))"
    using t [THEN conjunct2, THEN conjunct1, THEN mp, OF h0, THEN conjunct2] by simp
  have w3: "registrationPeriod_ok ''last-week''
      (diffDays sample_js sample_now (sample_customer 2 ''bina'' None ''2024-06-12 12:00:00''))"
    using t [THEN conjunct2, THEN conjunct1, THEN mp, OF h3, THEN conjunct2] by simp
  have w7: "registrationPeriod_ok ''last-week''
      (diffDays sample_js sample_now (sample_customer 3 ''caro'' None ''2024-06-08 12:00:00''))"
    using t [THEN conjunct2, THEN conjunct1, THEN mp, OF h7, THEN conjunct2] by simp
  have w8: "\<not> registrationPeriod_ok ''last-week''
      (diffDays sample_js sample_now (sample_customer 4 ''dana'' None ''2024-06-07 12:00:00''))"
    using t [THEN conjunct2, THEN conjunct1, THEN mp, OF h8, THEN conjunct2] by simp
  have m0: "registrationPeriod_ok ''last-month''
      (diffDays sample_js sample_now (sample_customer 1 ''asha'' None ''2024-06-15 12:00:00''))"
    using t [THEN conjunct2, THEN conjunct2, THEN conjunct1, THEN mp, OF w0] .
  have search: "patient_filter sample_js sample_now [] (no_filters\<lparr>registrationPeriod := ''last-week''\<rparr>) p
      \<longleftrightarrow> registrationPeriod_ok ''last-week'' (diffDays sample_js sample_now p)" for p
    by (simp add: patient_filter_def patient_callback_def no_filters_def Let_def sample_js_def
        includes_str_empty)
  have fl: "map (patient_filter sample_js sample_now [] (no_filters\<lparr>registrationPeriod := ''last-week''\<rparr>))
        [sample_customer 1 ''asha'' None ''2024-06-15 12:00:00'',
         sample_customer 2 ''bina'' None ''2024-06-12 12:00:00'',
         sample_customer 3 ''caro'' None ''2024-06-08 12:00:00'',
         sample_customer 4 ''dana'' None ''2024-06-07 12:00:00'']
      = [True, True, True, False]"
    using w0 w3 w7 w8 by (simp add: search)
  from w0 w3 w7 w8 m0 fl show ?thesis by (intro conjI)
qed

end
